theory Spec2Isabelle
  imports Main "HOL-Library.Word" "HOL-Library.Signed_Division" "HOL-Library.AList"
begin

unbundle bit_operations_syntax

section \<open>Basic types (types.h)\<close>

text \<open>
  \<^verbatim>\<open>typedef uint64_t Key;\<close> and \<^verbatim>\<open>typedef uint64_t Bitboard;\<close>.
  \<^verbatim>\<open>Value\<close>, \<^verbatim>\<open>ValueType\<close>, \<^verbatim>\<open>Depth\<close> and \<^verbatim>\<open>Move\<close> are enumerations
  with underlying type \<^verbatim>\<open>int\<close>; they and \<^verbatim>\<open>int\<close> itself are 32-bit words, read
  with \<open>sint\<close> where the sign matters.
\<close>

type_synonym Key = "64 word"
type_synonym Bitboard = "64 word"
type_synonym cint = "32 word"
type_synonym Value = "32 word"
type_synonym ValueType = "32 word"
type_synonym Depth = "32 word"
type_synonym Move = "32 word"

section \<open>Transposition table entries (tt.h)\<close>

text \<open>
  The four private fields of \<^verbatim>\<open>class TTEntry\<close>: \<^verbatim>\<open>Key key_; uint32_t data;
  int16_t value_; int16_t depth_;\<close> (a field name cannot end in an underscore here).
\<close>

record TTEntry =
  key_fld :: Key
  data_fld :: "32 word"
  value_fld :: "16 word"
  depth_fld :: "16 word"

text \<open>
  \<^verbatim>\<open>TTEntry(Key k, Value v, ValueType t, Depth d, Move m, int generation)
     : key_ (k), data((m & 0x1FFFF) | (t << 20) | (generation << 23)),
       value_(int16_t(v)), depth_(int16_t(d)) {}\<close>
  The conversions to \<^verbatim>\<open>int16_t\<close> keep the low 16 bits.
\<close>

definition TTEntry_ctor :: "Key \<Rightarrow> Value \<Rightarrow> ValueType \<Rightarrow> Depth \<Rightarrow> Move \<Rightarrow> cint \<Rightarrow> TTEntry" where
  "TTEntry_ctor k v t d m generation =
     \<lparr> key_fld = k,
       data_fld = (m AND 0x1FFFF) OR (push_bit 20 t) OR (push_bit 23 generation),
       value_fld = ucast v,
       depth_fld = ucast d \<rparr>"

text \<open>\<^verbatim>\<open>Key key() const { return key_; }\<close>\<close>

definition TTEntry_key :: "TTEntry \<Rightarrow> Key" where
  "TTEntry_key e = key_fld e"

text \<open>\<^verbatim>\<open>Depth depth() const { return Depth(depth_); }\<close>: the 16-bit field is sign-extended.\<close>

definition TTEntry_depth :: "TTEntry \<Rightarrow> Depth" where
  "TTEntry_depth e = scast (depth_fld e)"

text \<open>\<^verbatim>\<open>Move move() const { return Move(data & 0x1FFFF); }\<close>\<close>

definition TTEntry_move :: "TTEntry \<Rightarrow> Move" where
  "TTEntry_move e = data_fld e AND 0x1FFFF"

text \<open>\<^verbatim>\<open>Value value() const { return Value(value_); }\<close>\<close>

definition TTEntry_value :: "TTEntry \<Rightarrow> Value" where
  "TTEntry_value e = scast (value_fld e)"

text \<open>\<^verbatim>\<open>ValueType type() const { return ValueType((data >> 20) & 7); }\<close>\<close>

definition TTEntry_type :: "TTEntry \<Rightarrow> ValueType" where
  "TTEntry_type e = drop_bit 20 (data_fld e) AND 7"

text \<open>\<^verbatim>\<open>int generation() const { return (data >> 23); }\<close>: a logical shift, \<^verbatim>\<open>data\<close> is unsigned.\<close>

definition TTEntry_generation :: "TTEntry \<Rightarrow> cint" where
  "TTEntry_generation e = drop_bit 23 (data_fld e)"

text \<open>
  The number of bits of the four fields, in the order of the header's layout comment
  (bit 0-63 key, 64-95 data, 96-111 value, 112-127 depth).
\<close>

definition TTEntry_bits :: nat where
  "TTEntry_bits = LENGTH(64) + LENGTH(32) + LENGTH(16) + LENGTH(16)"

text \<open>
  The layout of the header comment as one 128-bit word, and its inverse.
\<close>

definition TTEntry_pack :: "TTEntry \<Rightarrow> 128 word" where
  "TTEntry_pack e =
     ucast (key_fld e) OR push_bit 64 (ucast (data_fld e)) OR push_bit 96 (ucast (value_fld e))
       OR push_bit 112 (ucast (depth_fld e))"

definition TTEntry_unpack :: "128 word \<Rightarrow> TTEntry" where
  "TTEntry_unpack w =
     \<lparr> key_fld = ucast w, data_fld = ucast (drop_bit 64 w), value_fld = ucast (drop_bit 96 w),
       depth_fld = ucast (drop_bit 112 w) \<rparr>"


section \<open>The transposition table (tt.h)\<close>

text \<open>
  The data members of \<^verbatim>\<open>class TranspositionTable\<close> that carry state:
  \<^verbatim>\<open>unsigned writes; unsigned size; TTEntry* entries; uint8_t generation;\<close>
  (the padding arrays hold nothing).
\<close>

record TranspositionTable =
  tt_writes :: "32 word"
  tt_size :: "32 word"
  tt_entries :: "TTEntry list"
  generation :: "8 word"

text \<open>
  Modelled from the spec: the body of \<^verbatim>\<open>TranspositionTable::new_search\<close>, whose
  definition (tt.cpp) is missing; only its declaration \<^verbatim>\<open>void new_search();\<close> is in
  tt.h. The spec says that it "bumps generation". The counter is the member
  \<^verbatim>\<open>uint8_t generation\<close> declared in tt.h, so the increment is that of an 8-bit word.
\<close>

definition new_search :: "TranspositionTable \<Rightarrow> TranspositionTable" where
  "new_search tt = tt\<lparr>generation := generation tt + 1\<rparr>"

text \<open>
  Modelled from the spec: the generation that \<^verbatim>\<open>TranspositionTable::store\<close> (tt.cpp,
  missing) stamps into the entry it writes. The spec's store "writes new entry" with the
  table's generation; the \<^verbatim>\<open>TTEntry\<close> constructor takes it as \<^verbatim>\<open>int generation\<close>, so
  the \<^verbatim>\<open>uint8_t\<close> counter is promoted to \<^verbatim>\<open>int\<close>.
\<close>

definition stamped_generation :: "TranspositionTable \<Rightarrow> cint" where
  "stamped_generation tt = ucast (generation tt)"


section \<open>Positions (position.h)\<close>

text \<open>
  \<^verbatim>\<open>Color\<close> and \<^verbatim>\<open>PieceType\<close> index the arrays of a position; their declarations
  (color.h, piece.h) are missing, the names are those used in the code.
\<close>

datatype Color = WHITE | BLACK

datatype PieceType = NO_PIECE_TYPE | PAWN | KNIGHT | BISHOP | ROOK | QUEEN | KING

text \<open>\<^verbatim>\<open>opposite_color\<close> (color.h, missing) is the other colour.\<close>

fun opposite_color :: "Color \<Rightarrow> Color" where
  "opposite_color WHITE = BLACK"
| "opposite_color BLACK = WHITE"

text \<open>
  \<^verbatim>\<open>struct StateInfo\<close>, without the link to the previous state:
  \<^verbatim>\<open>Key key, pawnKey, materialKey; int castleRights, rule50; Square epSquare;
  Value mgValue, egValue; Value npMaterial[2]; PieceType capture; Bitboard checkersBB;\<close>
\<close>

record StateInfo =
  key :: Key
  pawnKey :: Key
  materialKey :: Key
  castleRights :: cint
  rule50 :: cint
  epSquare :: cint
  mgValue :: Value
  egValue :: Value
  npMaterial :: "Color \<Rightarrow> Value"
  capture :: PieceType
  checkersBB :: Bitboard

text \<open>
  The members of \<^verbatim>\<open>class Position\<close> read by the functions below:
  \<^verbatim>\<open>Bitboard byColorBB[2], byTypeBB[8]; int pieceCount[2][8]; Color sideToMove;
  StateInfo* st;\<close> (index 0 of \<^verbatim>\<open>byTypeBB\<close> is the set of occupied squares).
\<close>

record Position =
  byColorBB :: "Color \<Rightarrow> Bitboard"
  byTypeBB :: "PieceType \<Rightarrow> Bitboard"
  pieceCount :: "Color \<Rightarrow> PieceType \<Rightarrow> cint"
  sideToMove :: Color
  st :: StateInfo

definition EmptyBoardBB :: Bitboard where
  "EmptyBoardBB = 0"

definition side_to_move :: "Position \<Rightarrow> Color" where
  "side_to_move pos = sideToMove pos"

definition pieces_of_color :: "Position \<Rightarrow> Color \<Rightarrow> Bitboard" where
  "pieces_of_color pos c = byColorBB pos c"

definition pieces_of_type :: "Position \<Rightarrow> PieceType \<Rightarrow> Bitboard" where
  "pieces_of_type pos pt = byTypeBB pos pt"

definition pieces_of_color_and_type :: "Position \<Rightarrow> Color \<Rightarrow> PieceType \<Rightarrow> Bitboard" where
  "pieces_of_color_and_type pos c pt = pieces_of_color pos c AND pieces_of_type pos pt"

definition pawns :: "Position \<Rightarrow> Bitboard" where
  "pawns pos = pieces_of_type pos PAWN"

definition rooks :: "Position \<Rightarrow> Bitboard" where
  "rooks pos = pieces_of_type pos ROOK"

definition queens :: "Position \<Rightarrow> Bitboard" where
  "queens pos = pieces_of_type pos QUEEN"

definition pawns_of :: "Position \<Rightarrow> Color \<Rightarrow> Bitboard" where
  "pawns_of pos c = pieces_of_color_and_type pos c PAWN"

definition piece_count :: "Position \<Rightarrow> Color \<Rightarrow> PieceType \<Rightarrow> cint" where
  "piece_count pos c pt = pieceCount pos c pt"

definition get_material_key :: "Position \<Rightarrow> Key" where
  "get_material_key pos = materialKey (st pos)"

definition non_pawn_material :: "Position \<Rightarrow> Color \<Rightarrow> Value" where
  "non_pawn_material pos c = npMaterial (st pos) c"

text \<open>
  Division of two \<^verbatim>\<open>int\<close>s in C++ truncates towards zero; the quotient is taken on the
  signed readings and stored back in 32 bits.
\<close>

definition int_div :: "cint \<Rightarrow> cint \<Rightarrow> cint" where
  "int_div a b = word_of_int (sint a sdiv sint b)"

text \<open>\<^verbatim>\<open>enum Phase { PHASE_ENDGAME = 0, PHASE_MIDGAME = 128 };\<close>\<close>

definition PHASE_ENDGAME :: cint where
  "PHASE_ENDGAME = 0"

definition PHASE_MIDGAME :: cint where
  "PHASE_MIDGAME = 128"

text \<open>
  \<^verbatim>\<open>inline Phase Position::game_phase() const {
    static const Value MidgameLimit = Value(15713);
    static const Value EndgameLimit = Value(4428);
    Value npm = non_pawn_material(WHITE) + non_pawn_material(BLACK);
    if (npm >= MidgameLimit) return PHASE_MIDGAME;
    else if(npm <= EndgameLimit) return PHASE_ENDGAME;
    else return Phase(((npm - EndgameLimit) * 128) / (MidgameLimit - EndgameLimit));
  }\<close>
  The comparisons are signed.
\<close>

definition MidgameLimit :: Value where
  "MidgameLimit = 15713"

definition EndgameLimit :: Value where
  "EndgameLimit = 4428"

definition game_phase :: "Position \<Rightarrow> cint" where
  "game_phase pos =
     (let npm = non_pawn_material pos WHITE + non_pawn_material pos BLACK in
      if MidgameLimit \<le>s npm then PHASE_MIDGAME
      else if npm \<le>s EndgameLimit then PHASE_ENDGAME
      else int_div ((npm - EndgameLimit) * 128) (MidgameLimit - EndgameLimit))"

subsection \<open>Open and half-open files\<close>

text \<open>
  Modelled from the spec: \<^verbatim>\<open>file_bb\<close> (bitboard.h, missing), the bitboard of a file.
  The spec numbers the squares 0..63 "in file-then-rank order (a1=0, h8=63)" and files
  0..7, and bit \<open>i\<close> of a bitboard stands for square \<open>i\<close>: the squares of file \<open>f\<close> are
  \<open>f\<close>, \<open>f + 8\<close>, ..., \<open>f + 56\<close>, the a-file shifted by \<open>f\<close>. A file is a number
  below 8; a larger one is outside the table of the source.
\<close>

definition file_bb :: "nat \<Rightarrow> Bitboard" where
  "file_bb f = push_bit f 0x0101010101010101"

text \<open>
  \<^verbatim>\<open>inline bool Position::file_is_open(Bitboard pawns, File f) {
    return !(pawns & file_bb(f)); }\<close>
\<close>

definition file_is_open :: "Bitboard \<Rightarrow> nat \<Rightarrow> bool" where
  "file_is_open pawns_bb f = (\<not> (pawns_bb AND file_bb f \<noteq> 0))"

text \<open>
  \<^verbatim>\<open>inline bool Position::file_is_half_open(Bitboard pawns, File f) {
    return !(pawns & file_bb(f)); }\<close>
\<close>

definition file_is_half_open :: "Bitboard \<Rightarrow> nat \<Rightarrow> bool" where
  "file_is_half_open pawns_bb f = (\<not> (pawns_bb AND file_bb f \<noteq> 0))"

text \<open>
  The two notions in the spec's words, on the pawn bitboards of the two colours:
  a file is half open for a side when it holds "no own pawns", and open when it holds
  "no pawns of either color". Square \<open>8 * r + f\<close> is the square of file \<open>f\<close> on rank \<open>r\<close>.
\<close>

definition spec_file_is_half_open :: "Bitboard \<Rightarrow> Bitboard \<Rightarrow> nat \<Rightarrow> bool" where
  "spec_file_is_half_open own their f = list_all (\<lambda>r. \<not> bit own (8 * r + f)) [0..<8]"

definition spec_file_is_open :: "Bitboard \<Rightarrow> Bitboard \<Rightarrow> nat \<Rightarrow> bool" where
  "spec_file_is_open own their f =
     list_all (\<lambda>r. \<not> bit own (8 * r + f) \<and> \<not> bit their (8 * r + f)) [0..<8]"


section \<open>Endgame function registry (material.cpp)\<close>

text \<open>
  The functions registered are global objects of endgame.cpp (missing); a pointer to one
  of them is its name, and \<^verbatim>\<open>NULL\<close> is \<open>None\<close>.
\<close>

datatype EndgameEvaluationFunction =
    EvaluateKPK | EvaluateKKP | EvaluateKBNK | EvaluateKKBN | EvaluateKRKP | EvaluateKPKR
  | EvaluateKRKB | EvaluateKBKR | EvaluateKRKN | EvaluateKNKR | EvaluateKQKR | EvaluateKRKQ
  | EvaluateKBBKN | EvaluateKNKBB | EvaluateKXK | EvaluateKKX | EvaluateKmmKm

datatype EndgameScalingFunction =
    ScaleKNPK | ScaleKKNP | ScaleKRPKR | ScaleKRKRP | ScaleKBPKB | ScaleKBKBP
  | ScaleKBPPKB | ScaleKBKBPP | ScaleKBPKN | ScaleKNKBP | ScaleKRPPKRP | ScaleKRPKRPP
  | ScaleKBPK | ScaleKKBP | ScaleKQKRP | ScaleKRPKQ | ScaleKPsK | ScaleKKPs
  | ScaleKPKPw | ScaleKPKPb

text \<open>\<^verbatim>\<open>struct ScalingInfo { Color col; EndgameScalingFunctionBase* fun; };\<close>\<close>

record ScalingInfo =
  col :: Color
  fun_ptr :: EndgameScalingFunction

text \<open>
  \<^verbatim>\<open>std::map<Key, EndgameEvaluationFunctionBase*> EEFmap; std::map<Key, ScalingInfo> ESFmap;\<close>
\<close>

record EndgameFunctions =
  EEFmap :: "Key \<rightharpoonup> EndgameEvaluationFunction"
  ESFmap :: "Key \<rightharpoonup> ScalingInfo"

text \<open>
  \<^verbatim>\<open>std::map::insert\<close> of a pair: the pair is stored only when the map holds no element
  with that key.
\<close>

definition map_insert :: "('k \<rightharpoonup> 'v) \<Rightarrow> 'k \<Rightarrow> 'v \<Rightarrow> ('k \<rightharpoonup> 'v)" where
  "map_insert m k v = (case m k of None \<Rightarrow> m(k \<mapsto> v) | Some old \<Rightarrow> m)"

text \<open>\<^verbatim>\<open>toupper\<close> and \<^verbatim>\<open>tolower\<close> of the C locale.\<close>

definition toupper :: "char \<Rightarrow> char" where
  "toupper c = (if 97 \<le> (of_char c :: nat) \<and> (of_char c :: nat) \<le> 122
                then char_of ((of_char c :: nat) - 32) else c)"

definition tolower :: "char \<Rightarrow> char" where
  "tolower c = (if 65 \<le> (of_char c :: nat) \<and> (of_char c :: nat) \<le> 90
                then char_of ((of_char c :: nat) + 32) else c)"

text \<open>Decimal output of an unsigned number, as \<^verbatim>\<open>operator<<\<close> writes it.\<close>

definition digit_char :: "nat \<Rightarrow> char" where
  "digit_char d = char_of (48 + d)"

function string_of_nat :: "nat \<Rightarrow> string" where
  "string_of_nat n =
     (if n < 10 then [digit_char n] else string_of_nat (n div 10) @ [digit_char (n mod 10)])"
  by pat_completeness auto
termination
  by (relation "measure id") auto

declare string_of_nat.simps [simp del]

text \<open>
  The loop of \<^verbatim>\<open>buildKey\<close> over the characters of \<^verbatim>\<open>keyCode\<close>:
  \<^verbatim>\<open>if (keyCode[i] == 'K') upcase = !upcase;
  s << char(upcase? toupper(keyCode[i]) : tolower(keyCode[i]));\<close>
\<close>

fun buildKey_loop :: "bool \<Rightarrow> string \<Rightarrow> string" where
  "buildKey_loop upcase [] = []"
| "buildKey_loop upcase (c # cs) =
     (let upcase' = (if c = CHR ''K'' then \<not> upcase else upcase) in
      (if upcase' then toupper c else tolower c) # buildKey_loop upcase' cs)"

text \<open>
  \<^verbatim>\<open>s << 8 - keyCode.length() << "/8/8/8/8/8/8/8 w -";\<close>: the difference is computed in
  \<^verbatim>\<open>size_t\<close> (64 bits, unsigned).
\<close>

definition buildKey_fen :: "string \<Rightarrow> string" where
  "buildKey_fen keyCode =
     buildKey_loop False keyCode
       @ string_of_nat (unat (8 - (of_nat (length keyCode) :: 64 word)))
       @ ''/8/8/8/8/8/8/8 w -''"

text \<open>
  \<^verbatim>\<open>return Position(s.str()).get_material_key();\<close> The FEN reader and the Zobrist tables
  are missing: the material key of the position read from a FEN string is the parameter
  \<open>fen_key\<close>. The two assertions on \<^verbatim>\<open>keyCode\<close> are compiled out (\<^verbatim>\<open>-DNDEBUG\<close>).
\<close>

definition buildKey :: "(string \<Rightarrow> Key) \<Rightarrow> string \<Rightarrow> Key" where
  "buildKey fen_key keyCode = fen_key (buildKey_fen keyCode)"

text \<open>
  \<^verbatim>\<open>void EndgameFunctions::add(const string& keyCode, EndgameEvaluationFunctionBase* f) {
    EEFmap.insert(std::pair<Key, EndgameEvaluationFunctionBase*>(buildKey(keyCode), f)); }\<close>
\<close>

definition add_EEF ::
  "(string \<Rightarrow> Key) \<Rightarrow> string \<Rightarrow> EndgameEvaluationFunction \<Rightarrow> EndgameFunctions \<Rightarrow> EndgameFunctions" where
  "add_EEF fen_key keyCode f ef = ef\<lparr>EEFmap := map_insert (EEFmap ef) (buildKey fen_key keyCode) f\<rparr>"

text \<open>
  \<^verbatim>\<open>void EndgameFunctions::add(const string& keyCode, Color c, EndgameScalingFunctionBase* f) {
    ScalingInfo s = {c, f};
    ESFmap.insert(std::pair<Key, ScalingInfo>(buildKey(keyCode), s)); }\<close>
\<close>

definition add_ESF ::
  "(string \<Rightarrow> Key) \<Rightarrow> string \<Rightarrow> Color \<Rightarrow> EndgameScalingFunction \<Rightarrow> EndgameFunctions \<Rightarrow> EndgameFunctions" where
  "add_ESF fen_key keyCode c f ef =
     ef\<lparr>ESFmap := map_insert (ESFmap ef) (buildKey fen_key keyCode) \<lparr>col = c, fun_ptr = f\<rparr>\<rparr>"

text \<open>
  \<^verbatim>\<open>getEEF\<close>: \<^verbatim>\<open>return (it != EEFmap.end() ? it->second : NULL);\<close>
\<close>

definition getEEF :: "EndgameFunctions \<Rightarrow> Key \<Rightarrow> EndgameEvaluationFunction option" where
  "getEEF ef k = EEFmap ef k"

text \<open>
  \<^verbatim>\<open>getESF(Key key, Color* c)\<close>: \<^verbatim>\<open>NULL\<close> when the key is absent, else the function
  with the colour written through \<^verbatim>\<open>c\<close>.
\<close>

definition getESF :: "EndgameFunctions \<Rightarrow> Key \<Rightarrow> (EndgameScalingFunction \<times> Color) option" where
  "getESF ef k = (case ESFmap ef k of None \<Rightarrow> None | Some si \<Rightarrow> Some (fun_ptr si, col si))"

text \<open>
  The two file-scope keys \<^verbatim>\<open>Key KNNKMaterialKey, KKNNMaterialKey;\<close>, assigned by the
  constructor of \<^verbatim>\<open>EndgameFunctions\<close>.
\<close>

record material_keys =
  KNNKMaterialKey :: Key
  KKNNMaterialKey :: Key

text \<open>
  The registrations of the constructor, in the order of the source: fourteen
  \<^verbatim>\<open>add(keyCode, f)\<close> and fourteen \<^verbatim>\<open>add(keyCode, c, f)\<close>. The last two lines of
  the source repeat the two before them.
\<close>

definition evaluation_registrations :: "(string \<times> EndgameEvaluationFunction) list" where
  "evaluation_registrations =
     [(''KPK'', EvaluateKPK),
      (''KKP'', EvaluateKKP),
      (''KBNK'', EvaluateKBNK),
      (''KKBN'', EvaluateKKBN),
      (''KRKP'', EvaluateKRKP),
      (''KPKR'', EvaluateKPKR),
      (''KRKB'', EvaluateKRKB),
      (''KBKR'', EvaluateKBKR),
      (''KRKN'', EvaluateKRKN),
      (''KNKR'', EvaluateKNKR),
      (''KQKR'', EvaluateKQKR),
      (''KRKQ'', EvaluateKRKQ),
      (''KBBKN'', EvaluateKBBKN),
      (''KNKBB'', EvaluateKNKBB)]"

definition scaling_registrations :: "(string \<times> Color \<times> EndgameScalingFunction) list" where
  "scaling_registrations =
     [(''KNPK'', WHITE, ScaleKNPK),
      (''KKNP'', BLACK, ScaleKKNP),
      (''KRPKR'', WHITE, ScaleKRPKR),
      (''KRKRP'', BLACK, ScaleKRKRP),
      (''KBPKB'', WHITE, ScaleKBPKB),
      (''KBKBP'', BLACK, ScaleKBKBP),
      (''KBPPKB'', WHITE, ScaleKBPPKB),
      (''KBKBPP'', BLACK, ScaleKBKBPP),
      (''KBPKN'', WHITE, ScaleKBPKN),
      (''KNKBP'', BLACK, ScaleKNKBP),
      (''KRPPKRP'', WHITE, ScaleKRPPKRP),
      (''KRPKRPP'', BLACK, ScaleKRPKRPP),
      (''KRPPKRP'', WHITE, ScaleKRPPKRP),
      (''KRPKRPP'', BLACK, ScaleKRPKRPP)]"

text \<open>Running a sequence of \<^verbatim>\<open>add\<close> calls on the registry.\<close>

definition add_EEFs ::
  "(string \<Rightarrow> Key) \<Rightarrow> (string \<times> EndgameEvaluationFunction) list \<Rightarrow> EndgameFunctions \<Rightarrow> EndgameFunctions" where
  "add_EEFs fen_key regs ef = foldl (\<lambda>e r. add_EEF fen_key (fst r) (snd r) e) ef regs"

definition add_ESFs ::
  "(string \<Rightarrow> Key) \<Rightarrow> (string \<times> Color \<times> EndgameScalingFunction) list \<Rightarrow> EndgameFunctions \<Rightarrow> EndgameFunctions" where
  "add_ESFs fen_key regs ef = foldl (\<lambda>e r. add_ESF fen_key (fst r) (fst (snd r)) (snd (snd r)) e) ef regs"

text \<open>
  \<^verbatim>\<open>EndgameFunctions::EndgameFunctions()\<close>: the two keys are computed, then the
  registrations run on the two maps, which start empty.
\<close>

definition EndgameFunctions_ctor :: "(string \<Rightarrow> Key) \<Rightarrow> EndgameFunctions \<times> material_keys" where
  "EndgameFunctions_ctor fen_key =
     (let mk = \<lparr> KNNKMaterialKey = buildKey fen_key ''KNNK'',
                 KKNNMaterialKey = buildKey fen_key ''KKNN'' \<rparr>;
          ef0 = \<lparr> EEFmap = Map.empty, ESFmap = Map.empty \<rparr>;
          ef1 = add_EEFs fen_key evaluation_registrations ef0;
          ef2 = add_ESFs fen_key scaling_registrations ef1
      in (ef2, mk))"

section \<open>The material hash table (material.cpp)\<close>

text \<open>
  The fields of \<^verbatim>\<open>MaterialInfo\<close> that \<^verbatim>\<open>get_material_info\<close> writes (the class is
  declared in material.h, missing): \<^verbatim>\<open>key\<close>, \<^verbatim>\<open>mgValue\<close> and \<^verbatim>\<open>egValue\<close> (assigned
  through \<^verbatim>\<open>int16_t(...)\<close>), \<^verbatim>\<open>spaceWeight\<close>, \<^verbatim>\<open>factor[2]\<close>,
  \<^verbatim>\<open>evaluationFunction\<close> and \<^verbatim>\<open>scalingFunction[2]\<close>.
\<close>

record MaterialInfo =
  mi_key :: Key
  mi_mgValue :: "16 word"
  mi_egValue :: "16 word"
  spaceWeight :: cint
  factor :: "Color \<Rightarrow> cint"
  evaluationFunction :: "EndgameEvaluationFunction option"
  scalingFunction :: "Color \<Rightarrow> EndgameScalingFunction option"

text \<open>
  Modelled from the spec: \<^verbatim>\<open>MaterialInfo::clear\<close> (material.h, missing). The spec
  describes an entry as "pointer to specialized static evaluator or none, pointer to
  scaling function per color, mgValue/egValue imbalance, space weight, factor[color]
  (0..64 where 64 = normal, 0 = drawish)": a cleared entry has no evaluator, no scaling
  function, zero imbalance and space weight, and the normal factor 64 for both colours.
  The key is left as it is; the caller sets it on the next line.
\<close>

definition clear :: "MaterialInfo \<Rightarrow> MaterialInfo" where
  "clear mi = mi\<lparr> mi_mgValue := 0, mi_egValue := 0, spaceWeight := 0,
                   factor := (\<lambda>c. 64),
                   evaluationFunction := None,
                   scalingFunction := (\<lambda>c. None) \<rparr>"

text \<open>
  The midgame piece values of value.h (missing) used by \<^verbatim>\<open>get_material_info\<close> are
  parameters.
\<close>

record piece_values =
  KnightValueMidgame :: Value
  BishopValueMidgame :: Value
  RookValueMidgame :: Value
  QueenValueMidgame :: Value

text \<open>\<^verbatim>\<open>const Value BishopPairMidgameBonus = Value(109), BishopPairEndgameBonus = Value(97);\<close>\<close>

definition BishopPairMidgameBonus :: Value where
  "BishopPairMidgameBonus = 109"

definition BishopPairEndgameBonus :: Value where
  "BishopPairEndgameBonus = 97"

text \<open>
  \<^verbatim>\<open>unsigned size; MaterialInfo* entries; EndgameFunctions* funcs;\<close> of
  \<^verbatim>\<open>MaterialInfoTable\<close>, as the constructor sets them.
\<close>

record MaterialInfoTable =
  mit_size :: "32 word"
  mit_entries :: "MaterialInfo list"
  funcs :: EndgameFunctions

text \<open>
  The first group of scaling-function tests of \<^verbatim>\<open>get_material_info\<close>, after the
  registry lookup failed: \<^verbatim>\<open>ScaleKBPK\<close>, \<^verbatim>\<open>ScaleKKBP\<close>, then
  \<^verbatim>\<open>ScaleKQKRP\<close> else \<^verbatim>\<open>ScaleKRPKQ\<close>.
\<close>

definition set_scaling :: "Color \<Rightarrow> EndgameScalingFunction \<Rightarrow> MaterialInfo \<Rightarrow> MaterialInfo" where
  "set_scaling c f mi = mi\<lparr>scalingFunction := (scalingFunction mi)(c := Some f)\<rparr>"

definition scaling_bishop_queen :: "piece_values \<Rightarrow> Position \<Rightarrow> MaterialInfo \<Rightarrow> MaterialInfo" where
  "scaling_bishop_queen pv pos mi =
     (let mi1 = (if non_pawn_material pos WHITE = BishopValueMidgame pv
                    \<and> piece_count pos WHITE BISHOP = 1
                    \<and> 1 \<le>s piece_count pos WHITE PAWN
                 then set_scaling WHITE ScaleKBPK mi else mi);
          mi2 = (if non_pawn_material pos BLACK = BishopValueMidgame pv
                    \<and> piece_count pos BLACK BISHOP = 1
                    \<and> 1 \<le>s piece_count pos BLACK PAWN
                 then set_scaling BLACK ScaleKKBP mi1 else mi1)
      in if piece_count pos WHITE PAWN = 0
            \<and> non_pawn_material pos WHITE = QueenValueMidgame pv
            \<and> piece_count pos WHITE QUEEN = 1
            \<and> piece_count pos BLACK ROOK = 1
            \<and> 1 \<le>s piece_count pos BLACK PAWN
         then set_scaling WHITE ScaleKQKRP mi2
         else if piece_count pos BLACK PAWN = 0
            \<and> non_pawn_material pos BLACK = QueenValueMidgame pv
            \<and> piece_count pos BLACK QUEEN = 1
            \<and> piece_count pos WHITE ROOK = 1
            \<and> 1 \<le>s piece_count pos WHITE PAWN
         then set_scaling BLACK ScaleKRPKQ mi2
         else mi2)"

text \<open>
  The pawn endings: \<^verbatim>\<open>if (pos.non_pawn_material(WHITE) + pos.non_pawn_material(BLACK)
  == Value(0))\<close> with its three cases (the two assertions are compiled out).
\<close>

definition scaling_pawns :: "Position \<Rightarrow> MaterialInfo \<Rightarrow> MaterialInfo" where
  "scaling_pawns pos mi =
     (if non_pawn_material pos WHITE + non_pawn_material pos BLACK = 0 then
        (if piece_count pos BLACK PAWN = 0 then set_scaling WHITE ScaleKPsK mi
         else if piece_count pos WHITE PAWN = 0 then set_scaling BLACK ScaleKKPs mi
         else if piece_count pos WHITE PAWN = 1 \<and> piece_count pos BLACK PAWN = 1
         then set_scaling BLACK ScaleKPKPb (set_scaling WHITE ScaleKPKPw mi)
         else mi)
      else mi)"

text \<open>The space weight: the square of the number of minor pieces, with enough material.\<close>

definition space_weight :: "piece_values \<Rightarrow> Position \<Rightarrow> MaterialInfo \<Rightarrow> MaterialInfo" where
  "space_weight pv pos mi =
     (if 2 * QueenValueMidgame pv + 4 * RookValueMidgame pv + 2 * KnightValueMidgame pv
           \<le>s non_pawn_material pos WHITE + non_pawn_material pos BLACK
      then (let minorPieceCount = piece_count pos WHITE KNIGHT + piece_count pos BLACK KNIGHT
                                + piece_count pos WHITE BISHOP + piece_count pos BLACK BISHOP
            in mi\<lparr>spaceWeight := minorPieceCount * minorPieceCount\<rparr>)
      else mi)"

text \<open>
  One pass of the loop \<^verbatim>\<open>for (c = WHITE, sign = 1; c <= BLACK; c++, sign = -sign)\<close>
  on the entry and the two running sums \<^verbatim>\<open>mgValue\<close> and \<^verbatim>\<open>egValue\<close>. The
  \<^verbatim>\<open>switch\<close> on the bishop count has no default: other counts leave the factor.
\<close>

definition balance_factor :: "piece_values \<Rightarrow> Position \<Rightarrow> Color \<Rightarrow> MaterialInfo \<Rightarrow> MaterialInfo" where
  "balance_factor pv pos c mi =
     (if piece_count pos c PAWN = 0
         \<and> non_pawn_material pos c - non_pawn_material pos (opposite_color c)
              \<le>s BishopValueMidgame pv
      then (if non_pawn_material pos c = non_pawn_material pos (opposite_color c)
               \<or> non_pawn_material pos c <s RookValueMidgame pv
            then mi\<lparr>factor := (factor mi)(c := 0)\<rparr>
            else if piece_count pos c BISHOP = 2 then mi\<lparr>factor := (factor mi)(c := 32)\<rparr>
            else if piece_count pos c BISHOP = 1 then mi\<lparr>factor := (factor mi)(c := 12)\<rparr>
            else if piece_count pos c BISHOP = 0 then mi\<lparr>factor := (factor mi)(c := 6)\<rparr>
            else mi)
      else mi)"

definition balance_values :: "Position \<Rightarrow> Color \<Rightarrow> cint \<Rightarrow> Value \<times> Value \<Rightarrow> Value \<times> Value" where
  "balance_values pos c sign acc =
     (let (mgValue0, egValue0) = acc;
          (mgValue1, egValue1) =
             (if 2 \<le>s piece_count pos c BISHOP
              then (mgValue0 + sign * BishopPairMidgameBonus, egValue0 + sign * BishopPairEndgameBonus)
              else (mgValue0, egValue0));
          knights = piece_count pos c KNIGHT * (piece_count pos c PAWN - 5) * 16;
          (mgValue2, egValue2) = (mgValue1 + sign * knights, egValue1 + sign * knights)
      in if 1 \<le>s piece_count pos c ROOK
         then (let v = (piece_count pos c ROOK - 1) * 32 + piece_count pos c QUEEN * 16
               in (mgValue2 - sign * v, egValue2 - sign * v))
         else (mgValue2, egValue2))"

definition material_balance :: "piece_values \<Rightarrow> Position \<Rightarrow> MaterialInfo \<Rightarrow> MaterialInfo" where
  "material_balance pv pos mi =
     (let miW = balance_factor pv pos WHITE mi;
          accW = balance_values pos WHITE 1 (0, 0);
          miB = balance_factor pv pos BLACK miW;
          (mgValue, egValue) = balance_values pos BLACK (- 1) accW
      in miB\<lparr>mi_mgValue := ucast mgValue, mi_egValue := ucast egValue\<rparr>)"

text \<open>
  What \<^verbatim>\<open>get_material_info\<close> computes into the entry after a miss, from
  \<^verbatim>\<open>mi->clear(); mi->key = key;\<close> on. Every \<^verbatim>\<open>return mi;\<close> of the source is a
  branch that stops here. In the minor-piece branch the two assertions are compiled out,
  and a failed inner test falls through to the scaling functions.
\<close>

definition compute_material_info ::
  "material_keys \<Rightarrow> piece_values \<Rightarrow> EndgameFunctions \<Rightarrow> Position \<Rightarrow> MaterialInfo \<Rightarrow> MaterialInfo" where
  "compute_material_info mk pv ef pos old =
     (let k = get_material_key pos;
          mi = (clear old)\<lparr>mi_key := k\<rparr>
      in if k = KNNKMaterialKey mk \<or> k = KKNNMaterialKey mk
         then mi\<lparr>factor := (\<lambda>c. 0)\<rparr>
         else (case getEEF ef k of
            Some f \<Rightarrow> mi\<lparr>evaluationFunction := Some f\<rparr>
          | None \<Rightarrow>
             if non_pawn_material pos BLACK = 0
                \<and> piece_count pos BLACK PAWN = 0
                \<and> RookValueMidgame pv \<le>s non_pawn_material pos WHITE
             then mi\<lparr>evaluationFunction := Some EvaluateKXK\<rparr>
             else if non_pawn_material pos WHITE = 0
                \<and> piece_count pos WHITE PAWN = 0
                \<and> RookValueMidgame pv \<le>s non_pawn_material pos BLACK
             then mi\<lparr>evaluationFunction := Some EvaluateKKX\<rparr>
             else if pawns pos = EmptyBoardBB \<and> rooks pos = EmptyBoardBB
                \<and> queens pos = EmptyBoardBB
                \<and> piece_count pos WHITE BISHOP + piece_count pos WHITE KNIGHT \<le>s 2
                \<and> piece_count pos BLACK BISHOP + piece_count pos BLACK KNIGHT \<le>s 2
             then mi\<lparr>evaluationFunction := Some EvaluateKmmKm\<rparr>
             else (case getESF ef k of
                Some (sf, c) \<Rightarrow> set_scaling c sf mi
              | None \<Rightarrow>
                 material_balance pv pos
                   (space_weight pv pos (scaling_pawns pos (scaling_bishop_queen pv pos mi))))))"

text \<open>
  \<^verbatim>\<open>MaterialInfo* MaterialInfoTable::get_material_info(const Position& pos)\<close>:
  \<^verbatim>\<open>Key key = pos.get_material_key(); int index = key & (size - 1);
  MaterialInfo* mi = entries + index; if (mi->key == key) return mi;\<close> and then the
  computation above, written into the table. \<open>entry_index\<close> is the conversion of
  \<^verbatim>\<open>key & (size - 1)\<close> to \<^verbatim>\<open>int\<close> and the pointer \<^verbatim>\<open>entries + index\<close>: \<open>None\<close>
  when it points outside the array. The result of \<open>get_material_info\<close> is the entry
  pointed to and the table after the call.
\<close>

definition entry_index :: "MaterialInfoTable \<Rightarrow> Key \<Rightarrow> nat option" where
  "entry_index t k =
     (let index = (ucast (k AND ucast (mit_size t - 1)) :: cint)
      in if sint index < 0 \<or> length (mit_entries t) \<le> nat (sint index) then None
         else Some (nat (sint index)))"

definition get_material_info ::
  "material_keys \<Rightarrow> piece_values \<Rightarrow> MaterialInfoTable \<Rightarrow> Position
     \<Rightarrow> (MaterialInfo \<times> MaterialInfoTable) option" where
  "get_material_info mk pv t pos =
     (let k = get_material_key pos in
      case entry_index t k of
        None \<Rightarrow> None
      | Some i \<Rightarrow>
          if mi_key (mit_entries t ! i) = k then Some (mit_entries t ! i, t)
          else (let mi = compute_material_info mk pv (funcs t) pos (mit_entries t ! i)
                in Some (mi, t\<lparr>mit_entries := (mit_entries t)[i := mi]\<rparr>)))"

text \<open>
  \<^verbatim>\<open>MaterialInfoTable::MaterialInfoTable(unsigned int numOfEntries)\<close>: the array of
  entries is given by the caller of the model (\<^verbatim>\<open>new MaterialInfo[size]\<close> runs the
  missing default constructor), and the registry is built.
\<close>

definition MaterialInfoTable_ctor ::
  "(string \<Rightarrow> Key) \<Rightarrow> MaterialInfo list \<Rightarrow> MaterialInfoTable \<times> material_keys" where
  "MaterialInfoTable_ctor fen_key fresh =
     (let (ef, mk) = EndgameFunctions_ctor fen_key
      in (\<lparr> mit_size = of_nat (length fresh), mit_entries = fresh, funcs = ef \<rparr>, mk))"


section \<open>Input string streams\<close>

text \<open>
  \<^verbatim>\<open>typedef istringstream UCIInputParser;\<close> The part of a \<^verbatim>\<open>std::istringstream\<close>
  that the code observes: the characters not yet read and the two state bits tested by
  \<^verbatim>\<open>eof()\<close> and by the extractions.
\<close>

record istringstream =
  buf :: string
  eofbit :: bool
  failbit :: bool

definition istringstream_ctor :: "string \<Rightarrow> istringstream" where
  "istringstream_ctor s = \<lparr> buf = s, eofbit = False, failbit = False \<rparr>"

text \<open>White space of the C locale: space, and the characters 9 to 13.\<close>

definition isspace :: "char \<Rightarrow> bool" where
  "isspace c = ((of_char c :: nat) = 32 \<or> (9 \<le> (of_char c :: nat) \<and> (of_char c :: nat) \<le> 13))"

definition isdigit :: "char \<Rightarrow> bool" where
  "isdigit c = (48 \<le> (of_char c :: nat) \<and> (of_char c :: nat) \<le> 57)"

text \<open>
  What every formatted extraction does first: on a stream that is not good it sets
  \<^verbatim>\<open>failbit\<close> and gives up; otherwise it skips white space, and sets \<^verbatim>\<open>eofbit\<close> and
  \<^verbatim>\<open>failbit\<close> when nothing is left.
\<close>

definition sentry :: "istringstream \<Rightarrow> bool \<times> istringstream" where
  "sentry s =
     (if eofbit s \<or> failbit s then (False, s\<lparr>failbit := True\<rparr>)
      else (let rest = dropWhile isspace (buf s) in
            if rest = [] then (False, s\<lparr>buf := [], eofbit := True, failbit := True\<rparr>)
            else (True, s\<lparr>buf := rest\<rparr>)))"

text \<open>
  \<^verbatim>\<open>uip >> token\<close> into a \<^verbatim>\<open>std::string\<close>: the characters up to the next white
  space; reaching the end of the buffer sets \<^verbatim>\<open>eofbit\<close>. A failed extraction leaves
  the old value of the variable.
\<close>

definition extract_string :: "istringstream \<Rightarrow> string \<Rightarrow> string \<times> istringstream" where
  "extract_string s old =
     (case sentry s of
        (False, s') \<Rightarrow> (old, s')
      | (True, s') \<Rightarrow>
          (let tok = takeWhile (\<lambda>c. \<not> isspace c) (buf s');
               rest = dropWhile (\<lambda>c. \<not> isspace c) (buf s')
           in (tok, s'\<lparr>buf := rest, eofbit := (rest = [])\<rparr>)))"

definition nat_of_digits :: "string \<Rightarrow> nat" where
  "nat_of_digits ds = foldl (\<lambda>a c. 10 * a + ((of_char c :: nat) - 48)) 0 ds"

text \<open>
  The number read by a decimal integer extraction: an optional sign and the digits that
  follow. The result is the number (or \<open>None\<close> without any digit) and the stream after
  it, with \<^verbatim>\<open>eofbit\<close> set when the digits ran to the end of the buffer.
\<close>

definition read_integer :: "istringstream \<Rightarrow> int option \<times> istringstream" where
  "read_integer s =
     (let (negative, b) = (case buf s of
                             [] \<Rightarrow> (False, [])
                           | c # cs \<Rightarrow> if c = CHR ''-'' then (True, cs)
                                       else if c = CHR ''+'' then (False, cs)
                                       else (False, c # cs));
          ds = takeWhile isdigit b;
          rest = dropWhile isdigit b;
          s' = s\<lparr>buf := rest, eofbit := (rest = [])\<rparr>
      in if ds = [] then (None, s')
         else (Some (if negative then - int (nat_of_digits ds) else int (nat_of_digits ds)), s'))"

text \<open>
  \<^verbatim>\<open>uip >> n\<close> into an \<^verbatim>\<open>int\<close>. Without digits the extraction fails and stores 0; a
  number outside the range of \<^verbatim>\<open>int\<close> fails and stores the nearest bound (the rule of
  C++11; an earlier library leaves the variable). A stream that is not good leaves the
  variable.
\<close>

definition INT_MAX :: int where
  "INT_MAX = 2147483647"

definition INT_MIN :: int where
  "INT_MIN = - 2147483648"

definition extract_int :: "istringstream \<Rightarrow> int \<Rightarrow> int \<times> istringstream" where
  "extract_int s old =
     (case sentry s of
        (False, s') \<Rightarrow> (old, s')
      | (True, s') \<Rightarrow>
          (case read_integer s' of
             (None, s'') \<Rightarrow> (0, s''\<lparr>failbit := True\<rparr>)
           | (Some v, s'') \<Rightarrow>
               if INT_MAX < v then (INT_MAX, s''\<lparr>failbit := True\<rparr>)
               else if v < INT_MIN then (INT_MIN, s''\<lparr>failbit := True\<rparr>)
               else (v, s'')))"

text \<open>
  \<^verbatim>\<open>ss >> b\<close> into a \<^verbatim>\<open>bool\<close> (without \<^verbatim>\<open>boolalpha\<close>): a number is read; 0 is
  \<^verbatim>\<open>false\<close>, 1 is \<^verbatim>\<open>true\<close>, any other number stores \<^verbatim>\<open>true\<close> and fails, no number
  stores \<^verbatim>\<open>false\<close> and fails.
\<close>

definition extract_bool :: "istringstream \<Rightarrow> bool \<Rightarrow> bool \<times> istringstream" where
  "extract_bool s old =
     (case sentry s of
        (False, s') \<Rightarrow> (old, s')
      | (True, s') \<Rightarrow>
          (case read_integer s' of
             (None, s'') \<Rightarrow> (False, s''\<lparr>failbit := True\<rparr>)
           | (Some v, s'') \<Rightarrow>
               if v = 0 then (False, s'')
               else if v = 1 then (True, s'')
               else (True, s''\<lparr>failbit := True\<rparr>)))"

section \<open>The option registry (ucioption.cpp)\<close>

text \<open>\<^verbatim>\<open>enum OptionType { SPIN, COMBO, CHECK, STRING, BUTTON };\<close>\<close>

datatype OptionType = SPIN | COMBO | CHECK | STRING | BUTTON

text \<open>
  \<^verbatim>\<open>struct Option { string name, defaultValue, currentValue; OptionType type; size_t idx;
  int minValue, maxValue; ComboValues comboValues; ... };\<close>
\<close>

record Option =
  name :: string
  defaultValue :: string
  currentValue :: string
  type :: OptionType
  idx :: nat
  minValue :: int
  maxValue :: int
  comboValues :: "string list"

text \<open>
  \<^verbatim>\<open>typedef std::map<string, Option> Options;\<close> as a list of pairs with distinct keys:
  its length is \<^verbatim>\<open>size()\<close>, \<open>map_of\<close> is \<^verbatim>\<open>find\<close>.
\<close>

type_synonym Options = "(string \<times> Option) list"

text \<open>
  \<^verbatim>\<open>stringify\<close> writes its argument with \<^verbatim>\<open>operator<<\<close>: a \<^verbatim>\<open>bool\<close> as 0 or 1, an
  \<^verbatim>\<open>int\<close> in decimal.
\<close>

definition stringify_bool :: "bool \<Rightarrow> string" where
  "stringify_bool b = (if b then ''1'' else ''0'')"

definition stringify_int :: "int \<Rightarrow> string" where
  "stringify_int i = (if i < 0 then CHR ''-'' # string_of_nat (nat (- i)) else string_of_nat (nat i))"

text \<open>
  The three constructors of \<^verbatim>\<open>Option\<close> that take a default value. Each reads
  \<^verbatim>\<open>options.size()\<close> for \<^verbatim>\<open>idx\<close>: the last argument here. The name stays empty.
\<close>

definition Option_string :: "string \<Rightarrow> OptionType \<Rightarrow> nat \<Rightarrow> Option" where
  "Option_string def t sz =
     \<lparr> name = [], defaultValue = def, currentValue = def, type = t, idx = sz,
       minValue = 0, maxValue = 0, comboValues = [] \<rparr>"

definition Option_bool :: "bool \<Rightarrow> OptionType \<Rightarrow> nat \<Rightarrow> Option" where
  "Option_bool def t sz =
     \<lparr> name = [], defaultValue = stringify_bool def, currentValue = stringify_bool def,
       type = t, idx = sz, minValue = 0, maxValue = 0, comboValues = [] \<rparr>"

definition Option_int :: "int \<Rightarrow> int \<Rightarrow> int \<Rightarrow> nat \<Rightarrow> Option" where
  "Option_int def minv maxv sz =
     \<lparr> name = [], defaultValue = stringify_int def, currentValue = stringify_int def,
       type = SPIN, idx = sz, minValue = minv, maxValue = maxv, comboValues = [] \<rparr>"

text \<open>
  \<^verbatim>\<open>o["..."] = Option(...)\<close> in \<^verbatim>\<open>load_defaults\<close>, where \<^verbatim>\<open>o\<close> is the global
  \<^verbatim>\<open>options\<close>: the new option is built first, so its \<^verbatim>\<open>idx\<close> is the size of the map
  before the key is entered.
\<close>

definition assign :: "Options \<Rightarrow> string \<times> (nat \<Rightarrow> Option) \<Rightarrow> Options" where
  "assign o_map entry = AList.update (fst entry) (snd entry (length o_map)) o_map"

definition defaults_before_combo :: "(string \<times> (nat \<Rightarrow> Option)) list" where
  "defaults_before_combo =
     [(''Use Search Log'', Option_bool False CHECK),
      (''Search Log Filename'', Option_string ''SearchLog.txt'' STRING),
      (''Book File'', Option_string ''book.bin'' STRING),
      (''Mobility (Middle Game)'', Option_int 100 0 200),
      (''Mobility (Endgame)'', Option_int 100 0 200),
      (''Pawn Structure (Middle Game)'', Option_int 100 0 200),
      (''Pawn Structure (Endgame)'', Option_int 100 0 200),
      (''Passed Pawns (Middle Game)'', Option_int 100 0 200),
      (''Passed Pawns (Endgame)'', Option_int 100 0 200),
      (''Space'', Option_int 100 0 200),
      (''Aggressiveness'', Option_int 100 0 200),
      (''Cowardice'', Option_int 100 0 200),
      (''King Safety Curve'', Option_string ''Quadratic'' COMBO)]"

definition defaults_after_combo :: "(string \<times> (nat \<Rightarrow> Option)) list" where
  "defaults_after_combo =
     [(''King Safety Coefficient'', Option_int 40 1 100),
      (''King Safety X Intercept'', Option_int 0 0 20),
      (''King Safety Max Slope'', Option_int 30 10 100),
      (''King Safety Max Value'', Option_int 500 100 1000),
      (''Queen Contact Check Bonus'', Option_int 3 0 8),
      (''Queen Check Bonus'', Option_int 2 0 4),
      (''Rook Check Bonus'', Option_int 1 0 4),
      (''Bishop Check Bonus'', Option_int 1 0 4),
      (''Knight Check Bonus'', Option_int 1 0 4),
      (''Discovered Check Bonus'', Option_int 3 0 8),
      (''Mate Threat Bonus'', Option_int 3 0 8),
      (''Check Extension (PV nodes)'', Option_int 2 0 2),
      (''Check Extension (non-PV nodes)'', Option_int 1 0 2),
      (''Single Reply Extension (PV nodes)'', Option_int 2 0 2),
      (''Single Reply Extension (non-PV nodes)'', Option_int 2 0 2),
      (''Mate Threat Extension (PV nodes)'', Option_int 0 0 2),
      (''Mate Threat Extension (non-PV nodes)'', Option_int 0 0 2),
      (''Pawn Push to 7th Extension (PV nodes)'', Option_int 1 0 2),
      (''Pawn Push to 7th Extension (non-PV nodes)'', Option_int 1 0 2),
      (''Passed Pawn Extension (PV nodes)'', Option_int 1 0 2),
      (''Passed Pawn Extension (non-PV nodes)'', Option_int 0 0 2),
      (''Pawn Endgame Extension (PV nodes)'', Option_int 2 0 2),
      (''Pawn Endgame Extension (non-PV nodes)'', Option_int 2 0 2),
      (''Full Depth Moves (PV nodes)'', Option_int 14 1 100),
      (''Full Depth Moves (non-PV nodes)'', Option_int 3 1 100),
      (''Threat Depth'', Option_int 5 0 100),
      (''LSN filtering'', Option_bool False CHECK),
      (''LSN Time Margin (sec)'', Option_int 4 1 10),
      (''LSN Value Margin'', Option_int 200 100 600),
      (''Randomness'', Option_int 0 0 10),
      (''Minimum Split Depth'', Option_int 4 4 7),
      (''Maximum Number of Threads per Split Point'', Option_int 5 4 8),
      (''Threads'', Option_int 1 1 8),
      (''Hash'', Option_int 32 4 4096),
      (''Clear Hash'', Option_bool False BUTTON),
      (''Ponder'', Option_bool True CHECK),
      (''OwnBook'', Option_bool True CHECK),
      (''MultiPV'', Option_int 1 1 500),
      (''UCI_ShowCurrLine'', Option_bool False CHECK),
      (''UCI_Chess960'', Option_bool False CHECK)]"

text \<open>
  \<^verbatim>\<open>void load_defaults(Options& o)\<close>: the assignments, the two
  \<^verbatim>\<open>comboValues.push_back\<close> on "King Safety Curve" after the thirteenth, and the final
  loop that stores each key as the option's name.
\<close>

definition load_defaults :: "Options \<Rightarrow> Options" where
  "load_defaults o_map =
     (let o1 = foldl assign o_map defaults_before_combo;
          o2 = AList.map_entry ''King Safety Curve''
                 (\<lambda>opt. opt\<lparr>comboValues := comboValues opt @ [''Quadratic'']\<rparr>) o1;
          o3 = AList.map_entry ''King Safety Curve''
                 (\<lambda>opt. opt\<lparr>comboValues := comboValues opt @ [''Linear'']\<rparr>) o2;
          o4 = foldl assign o3 defaults_after_combo
      in map (\<lambda>(k, opt). (k, opt\<lparr>name := k\<rparr>)) o4)"

text \<open>
  \<^verbatim>\<open>void init_uci_options()\<close>; \<^verbatim>\<open>cpu_count()\<close> (misc.h, missing) is a parameter. Both
  keys are in the map after \<^verbatim>\<open>load_defaults\<close>, so \<^verbatim>\<open>options[...]\<close> finds them.
\<close>

definition init_uci_options :: "int \<Rightarrow> Options \<Rightarrow> Options" where
  "init_uci_options cpu_count options0 =
     (let o1 = load_defaults options0;
          threads = stringify_int (min cpu_count 7);
          o2 = AList.map_entry ''Threads''
                 (\<lambda>opt. opt\<lparr>defaultValue := threads, currentValue := threads\<rparr>) o1
      in if 4 < cpu_count
         then AList.map_entry ''Minimum Split Depth''
                (\<lambda>opt. opt\<lparr>defaultValue := ''6'', currentValue := ''6''\<rparr>) o2
         else o2)"

text \<open>
  The state of the module: the global \<^verbatim>\<open>Options options;\<close> and what has been written to
  \<^verbatim>\<open>std::cout\<close>.
\<close>

record ucioption_state =
  options :: Options
  cout :: string

text \<open>
  \<^verbatim>\<open>template<typename T> T get_option_value(const string& optionName)\<close>:
  \<^verbatim>\<open>T ret = T(); if (options.find(optionName) == options.end()) return ret;
  std::istringstream ss(options[optionName].currentValue); ss >> ret; return ret;\<close>
  at the types \<^verbatim>\<open>bool\<close>, \<^verbatim>\<open>int\<close> and \<^verbatim>\<open>string\<close>.
\<close>

definition get_option_value_bool :: "ucioption_state \<Rightarrow> string \<Rightarrow> bool" where
  "get_option_value_bool s optionName =
     (case map_of (options s) optionName of
        None \<Rightarrow> False
      | Some opt \<Rightarrow> fst (extract_bool (istringstream_ctor (currentValue opt)) False))"

definition get_option_value_int :: "ucioption_state \<Rightarrow> string \<Rightarrow> int" where
  "get_option_value_int s optionName =
     (case map_of (options s) optionName of
        None \<Rightarrow> 0
      | Some opt \<Rightarrow> fst (extract_int (istringstream_ctor (currentValue opt)) 0))"

definition get_option_value_string :: "ucioption_state \<Rightarrow> string \<Rightarrow> string" where
  "get_option_value_string s optionName =
     (case map_of (options s) optionName of
        None \<Rightarrow> []
      | Some opt \<Rightarrow> fst (extract_string (istringstream_ctor (currentValue opt)) []))"

text \<open>
  \<^verbatim>\<open>void set_option_value(const string& name, const string& value) {
    string v(value);
    if (v == "true") v = "1"; else if (v == "false") v = "0";
    if (options.find(name) != options.end()) options[name].currentValue = v;
    else std::cout << "No such option: " << name << std::endl; }\<close>
\<close>

definition set_option_value :: "string \<Rightarrow> string \<Rightarrow> ucioption_state \<Rightarrow> ucioption_state" where
  "set_option_value nm val s =
     (let v = (if val = ''true'' then ''1'' else if val = ''false'' then ''0'' else val)
      in if map_of (options s) nm \<noteq> None
         then s\<lparr>options := AList.map_entry nm (\<lambda>opt. opt\<lparr>currentValue := v\<rparr>) (options s)\<rparr>
         else s\<lparr>cout := cout s @ ''No such option: '' @ nm @ [CHR 0x0A]\<rparr>)"

text \<open>\<^verbatim>\<open>void push_button(const string& buttonName) { set_option_value(buttonName, "true"); }\<close>\<close>

definition push_button :: "string \<Rightarrow> ucioption_state \<Rightarrow> ucioption_state" where
  "push_button buttonName s = set_option_value buttonName ''true'' s"

text \<open>
  \<^verbatim>\<open>bool button_was_pressed(const string& buttonName) {
    if (!get_option_value<bool>(buttonName)) return false;
    set_option_value(buttonName, "false"); return true; }\<close>
\<close>

definition button_was_pressed :: "string \<Rightarrow> ucioption_state \<Rightarrow> bool \<times> ucioption_state" where
  "button_was_pressed buttonName s =
     (if \<not> get_option_value_bool s buttonName then (False, s)
      else (True, set_option_value buttonName ''false'' s))"


section \<open>The go command (uci.cpp)\<close>

text \<open>
  The local variables of \<^verbatim>\<open>go\<close>: \<^verbatim>\<open>int time[2] = {0, 0}, inc[2] = {0, 0};
  int movesToGo = 0, depth = 0, nodes = 0, moveTime = 0;
  bool infinite = false, ponder = false; Move searchMoves[500];\<close>
  Of the array, the model keeps the part that has been written, up to and including the
  terminating \<^verbatim>\<open>MOVE_NONE\<close>.
\<close>

record go_locals =
  time0 :: int
  time1 :: int
  inc0 :: int
  inc1 :: int
  movesToGo :: int
  depth :: int
  nodes :: int
  moveTime :: int
  infinite :: bool
  ponder :: bool
  searchMoves :: "Move list"

definition MOVE_NONE :: Move where
  "MOVE_NONE = 0"

definition go_initial :: go_locals where
  "go_initial =
     \<lparr> time0 = 0, time1 = 0, inc0 = 0, inc1 = 0, movesToGo = 0, depth = 0, nodes = 0,
       moveTime = 0, infinite = False, ponder = False, searchMoves = [MOVE_NONE] \<rparr>"

text \<open>A write past the last element of \<^verbatim>\<open>searchMoves[500]\<close> has no defined behaviour.\<close>

datatype go_error = ArrayOverrun

text \<open>
  The inner loop after the token \<^verbatim>\<open>searchmoves\<close>:
  \<^verbatim>\<open>while (!uip.eof()) { uip >> token;
     searchMoves[numOfMoves++] = move_from_string(RootPosition, token); }\<close>
  \<^verbatim>\<open>move_from_string\<close> (move.cpp, missing) on the root position is the parameter
  \<open>mfs\<close>. The loop need not end: the result is \<open>None\<close> when it does not.
\<close>

partial_function (option) searchmoves_loop ::
  "(string \<Rightarrow> Move) \<Rightarrow> istringstream \<Rightarrow> string \<Rightarrow> Move list
     \<Rightarrow> (go_error + istringstream \<times> string \<times> Move list) option" where
  "searchmoves_loop mfs uip token moves =
     (if eofbit uip then Some (Inr (uip, token, moves))
      else (let r = extract_string uip token in
            if 500 \<le> length moves then Some (Inl ArrayOverrun)
            else searchmoves_loop mfs (snd r) (fst r) (moves @ [mfs (fst r)])))"

text \<open>
  The body of the loop \<^verbatim>\<open>while (!uip.eof()) { uip >> token;
  if (token == "infinite") ... }\<close>: one extraction of a token and the branch it
  selects. The variable \<^verbatim>\<open>token\<close> lives outside the loop and keeps its value when
  an extraction fails. An unknown token is skipped. The result is the stream, the token
  and the locals after the pass.
\<close>

definition go_body ::
  "(string \<Rightarrow> Move) \<Rightarrow> istringstream \<Rightarrow> string \<Rightarrow> go_locals
     \<Rightarrow> (go_error + istringstream \<times> string \<times> go_locals) option" where
  "go_body mfs uip token g =
     (let r = extract_string uip token; token' = fst r; uip1 = snd r in
        if token' = ''infinite'' then Some (Inr (uip1, token', g\<lparr>infinite := True\<rparr>))
        else if token' = ''ponder'' then Some (Inr (uip1, token', g\<lparr>ponder := True\<rparr>))
        else if token' = ''wtime'' then
          (let e = extract_int uip1 (time0 g) in Some (Inr (snd e, token', g\<lparr>time0 := fst e\<rparr>)))
        else if token' = ''btime'' then
          (let e = extract_int uip1 (time1 g) in Some (Inr (snd e, token', g\<lparr>time1 := fst e\<rparr>)))
        else if token' = ''winc'' then
          (let e = extract_int uip1 (inc0 g) in Some (Inr (snd e, token', g\<lparr>inc0 := fst e\<rparr>)))
        else if token' = ''binc'' then
          (let e = extract_int uip1 (inc1 g) in Some (Inr (snd e, token', g\<lparr>inc1 := fst e\<rparr>)))
        else if token' = ''movestogo'' then
          (let e = extract_int uip1 (movesToGo g) in Some (Inr (snd e, token', g\<lparr>movesToGo := fst e\<rparr>)))
        else if token' = ''depth'' then
          (let e = extract_int uip1 (depth g) in Some (Inr (snd e, token', g\<lparr>depth := fst e\<rparr>)))
        else if token' = ''nodes'' then
          (let e = extract_int uip1 (nodes g) in Some (Inr (snd e, token', g\<lparr>nodes := fst e\<rparr>)))
        else if token' = ''movetime'' then
          (let e = extract_int uip1 (moveTime g) in Some (Inr (snd e, token', g\<lparr>moveTime := fst e\<rparr>)))
        else if token' = ''searchmoves'' then
          (case searchmoves_loop mfs uip1 token' [] of
             None \<Rightarrow> None
           | Some (Inl err) \<Rightarrow> Some (Inl err)
           | Some (Inr (uip2, token2, moves)) \<Rightarrow>
               if 500 \<le> length moves then Some (Inl ArrayOverrun)
               else Some (Inr (uip2, token2, g\<lparr>searchMoves := moves @ [MOVE_NONE]\<rparr>)))
        else Some (Inr (uip1, token', g)))"

text \<open>
  The loop itself: \<^verbatim>\<open>while (!uip.eof()) { ... }\<close>. It ends only when \<^verbatim>\<open>eofbit\<close>
  gets set; the result is \<open>None\<close> when it never is.
\<close>

partial_function (option) go_loop ::
  "(string \<Rightarrow> Move) \<Rightarrow> istringstream \<Rightarrow> string \<Rightarrow> go_locals \<Rightarrow> (go_error + go_locals) option" where
  "go_loop mfs uip token g =
     (if eofbit uip then Some (Inr g)
      else Option.bind (go_body mfs uip token g)
             (\<lambda>res. if isl res then Some (Inl (projl res))
                    else go_loop mfs (fst (projr res)) (fst (snd (projr res)))
                           (snd (snd (projr res)))))"

text \<open>
  The arguments of the call
  \<^verbatim>\<open>think(RootPosition, infinite, ponder, RootPosition.side_to_move(),
        time, inc, movesToGo, depth, nodes, moveTime, searchMoves)\<close>;
  \<^verbatim>\<open>think\<close> itself (search.cpp) is missing.
\<close>

record think_call =
  think_pos :: Position
  think_infinite :: bool
  think_ponder :: bool
  think_side_to_move :: Color
  think_time :: "int \<times> int"
  think_increment :: "int \<times> int"
  think_movesToGo :: int
  think_maxDepth :: int
  think_maxNodes :: int
  think_maxTime :: int
  think_searchMoves :: "Move list"

text \<open>
  \<^verbatim>\<open>bool go(UCIInputParser& uip)\<close>, up to the call of \<^verbatim>\<open>think\<close>: the loop, then
  \<^verbatim>\<open>if (moveTime) infinite = true;  // HACK\<close>, then the call (the assertion is
  compiled out). The stream is the one \<^verbatim>\<open>handle_command\<close> has read the first token
  from.
\<close>

definition go ::
  "(Position \<Rightarrow> string \<Rightarrow> Move) \<Rightarrow> Position \<Rightarrow> istringstream \<Rightarrow> (go_error + think_call) option" where
  "go move_from_string RootPosition uip =
     Option.bind (go_loop (move_from_string RootPosition) uip [] go_initial)
       (\<lambda>res. case res of
           Inl err \<Rightarrow> Some (Inl err)
         | Inr g \<Rightarrow>
             (let g' = (if moveTime g \<noteq> 0 then g\<lparr>infinite := True\<rparr> else g) in
              Some (Inr \<lparr> think_pos = RootPosition,
                          think_infinite = infinite g',
                          think_ponder = ponder g',
                          think_side_to_move = side_to_move RootPosition,
                          think_time = (time0 g', time1 g'),
                          think_increment = (inc0 g', inc1 g'),
                          think_movesToGo = movesToGo g',
                          think_maxDepth = depth g',
                          think_maxNodes = nodes g',
                          think_maxTime = moveTime g',
                          think_searchMoves = searchMoves g' \<rparr>)))"


section \<open>Example data\<close>

text \<open>
  Concrete inputs on which the closed theorems below run the definitions. The material
  key of a FEN string is a polynomial hash of its characters, in place of the Zobrist
  sum; the piece values are sample numbers.
\<close>

definition example_fen_key :: "string \<Rightarrow> Key" where
  "example_fen_key fen = foldl (\<lambda>h c. h * 131 + of_nat (of_char c)) 0 fen"

definition example_piece_values :: piece_values where
  "example_piece_values =
     \<lparr> KnightValueMidgame = 0x340, BishopValueMidgame = 0x340,
       RookValueMidgame = 0x4FE, QueenValueMidgame = 0x9D9 \<rparr>"

definition example_entry :: MaterialInfo where
  "example_entry =
     \<lparr> mi_key = 0, mi_mgValue = 0, mi_egValue = 0, spaceWeight = 0, factor = (\<lambda>c. 64),
       evaluationFunction = None, scalingFunction = (\<lambda>c. None) \<rparr>"

definition example_table :: MaterialInfoTable where
  "example_table = fst (MaterialInfoTable_ctor example_fen_key [example_entry, example_entry])"

definition example_keys :: material_keys where
  "example_keys = snd (MaterialInfoTable_ctor example_fen_key [example_entry, example_entry])"

text \<open>
  White king e1 and knights b1, c1 against the black king e8; the material key is the
  one \<^verbatim>\<open>buildKey("KNNK")\<close> gives.
\<close>

definition KNNK_position :: Position where
  "KNNK_position =
     \<lparr> byColorBB = (\<lambda>c. if c = WHITE then 0x16 else 0x1000000000000000),
       byTypeBB = (\<lambda>t. if t = NO_PIECE_TYPE then 0x1000000000000016
                       else if t = KNIGHT then 0x06
                       else if t = KING then 0x1000000000000010 else 0),
       pieceCount = (\<lambda>c t. if t = KING then 1 else if c = WHITE \<and> t = KNIGHT then 2 else 0),
       sideToMove = WHITE,
       st = \<lparr> key = 0, pawnKey = 0, materialKey = buildKey example_fen_key ''KNNK'',
              castleRights = 0, rule50 = 0, epSquare = 0, mgValue = 0, egValue = 0,
              npMaterial = (\<lambda>c. if c = WHITE then 0x680 else 0),
              capture = NO_PIECE_TYPE, checkersBB = 0 \<rparr> \<rparr>"

text \<open>A position with non-pawn material 5000 for each side; the other fields are empty.\<close>

definition example_position :: Position where
  "example_position =
     \<lparr> byColorBB = (\<lambda>c. 0), byTypeBB = (\<lambda>t. 0), pieceCount = (\<lambda>c t. 0), sideToMove = WHITE,
       st = \<lparr> key = 0, pawnKey = 0, materialKey = 0, castleRights = 0, rule50 = 0,
              epSquare = 0, mgValue = 0, egValue = 0, npMaterial = (\<lambda>c. 5000),
              capture = NO_PIECE_TYPE, checkersBB = 0 \<rparr> \<rparr>"

text \<open>The option registry after \<^verbatim>\<open>init_uci_options\<close> on a single processor.\<close>

definition example_state :: ucioption_state where
  "example_state = \<lparr> options = init_uci_options 1 [], cout = [] \<rparr>"

section \<open>Transposition table: generation counter and entry fields\<close>

lemma generation_funpow: "generation ((new_search ^^ n) tt) = generation tt + of_nat n"
  by (induction n) (simp_all add: new_search_def)

lemma unat_generation_funpow:
  "unat (generation ((new_search ^^ n) tt)) = (unat (generation tt) + n) mod 2 ^ 8"
  by (simp add: generation_funpow unat_word_ariths unat_of_nat mod_simps)

lemma unat_promote_uint8: "unat (ucast w :: 32 word) = unat w" for w :: "8 word"
proof -
  have "unat w < 2 ^ 8" using unsigned_less [of w, where 'a = nat] by simp
  then have "unat w < 2 ^ 32" by simp
  then show ?thesis by (simp add: unsigned_ucast_eq take_bit_nat_eq_self)
qed

text \<open>
  Claim C1, as stated: after each \<^verbatim>\<open>new_search\<close> the counter is the previous one plus
  one modulo \<open>2^9\<close>. It fails on a table whose counter is 255: the next value is 0, and
  256 is what counting modulo \<open>2^9\<close> would give.
\<close>

theorem new_search_wrap_counterexample:
  "unat (generation (new_search \<lparr>tt_writes = 0, tt_size = 0, tt_entries = [], generation = 255\<rparr>))
     \<noteq> (unat (generation \<lparr>tt_writes = 0, tt_size = 0, tt_entries = [], generation = 255\<rparr>) + 1) mod 2 ^ 9"
  by (simp add: new_search_def)

text \<open>
  Claim C1, amended: over any sequence of \<open>n\<close> calls of \<^verbatim>\<open>new_search\<close> the generation
  counter grows by one per call and wraps modulo \<open>2^8\<close>, the counter being a
  \<^verbatim>\<open>uint8_t\<close>; the value stamped into an entry is the same number, so it takes the
  values 0..255 only, inside the 9-bit field of the entry.
\<close>

theorem new_search_generation_mod_256:
  "unat (generation ((new_search ^^ n) tt)) = (unat (generation tt) + n) mod 2 ^ 8
   \<and> unat (stamped_generation ((new_search ^^ n) tt)) = (unat (generation tt) + n) mod 2 ^ 8
   \<and> stamped_generation ((new_search ^^ n) tt) < 2 ^ 9"
proof -
  let ?tt = "(new_search ^^ n) tt"
  have s: "unat (stamped_generation ?tt) = (unat (generation tt) + n) mod 2 ^ 8"
    by (simp add: stamped_generation_def unat_promote_uint8 unat_generation_funpow)
  have "unat (stamped_generation ?tt) < 2 ^ 9"
    unfolding s by (rule less_trans [OF mod_less_divisor]) simp_all
  then have "stamped_generation ?tt < 2 ^ 9"
    by (simp add: word_less_nat_alt)
  with s show ?thesis by (simp add: unat_generation_funpow)
qed

lemma less_2p_take_bit: "take_bit n x = x" if "x < 2 ^ n" for x :: "'a::len word"
  using less_mask_eq [OF that] by (simp add: take_bit_eq_mask)

lemma move_mask_eq: "(0x1FFFF :: 32 word) = mask 17"
  by (simp add: mask_eq_exp_minus_1)

lemma type_mask_eq: "(7 :: 32 word) = mask 3"
  by (simp add: mask_eq_exp_minus_1)

lemma data_generation:
  fixes m t g :: "32 word"
  assumes "m < 2 ^ 17" "t < 8" "g < 2 ^ 9"
  shows "drop_bit 23 ((m AND 0x1FFFF) OR push_bit 20 t OR push_bit 23 g) = g"
proof -
  have t: "t < 2 ^ 3" using assms(2) by simp
  have "drop_bit 23 ((take_bit 17 m AND mask 17) OR push_bit 20 (take_bit 3 t)
          OR push_bit 23 (take_bit 9 g)) = take_bit 9 g"
    by (rule bit_word_eqI) (auto simp: bit_simps)
  then show ?thesis
    by (simp only: less_2p_take_bit [OF assms(1)] less_2p_take_bit [OF t]
          less_2p_take_bit [OF assms(3)] move_mask_eq)
qed

lemma data_type:
  fixes m t g :: "32 word"
  assumes "m < 2 ^ 17" "t < 8" "g < 2 ^ 9"
  shows "drop_bit 20 ((m AND 0x1FFFF) OR push_bit 20 t OR push_bit 23 g) AND 7 = t"
proof -
  have t: "t < 2 ^ 3" using assms(2) by simp
  have "drop_bit 20 ((take_bit 17 m AND mask 17) OR push_bit 20 (take_bit 3 t)
          OR push_bit 23 (take_bit 9 g)) AND mask 3 = take_bit 3 t"
    by (rule bit_word_eqI) (auto simp: bit_simps)
  then show ?thesis
    by (simp only: less_2p_take_bit [OF assms(1)] less_2p_take_bit [OF t]
          less_2p_take_bit [OF assms(3)] move_mask_eq type_mask_eq)
qed

lemma data_move:
  fixes m t g :: "32 word"
  assumes "m < 2 ^ 17" "t < 8" "g < 2 ^ 9"
  shows "((m AND 0x1FFFF) OR push_bit 20 t OR push_bit 23 g) AND 0x1FFFF = m"
proof -
  have t: "t < 2 ^ 3" using assms(2) by simp
  have "((take_bit 17 m AND mask 17) OR push_bit 20 (take_bit 3 t)
          OR push_bit 23 (take_bit 9 g)) AND mask 17 = take_bit 17 m"
    by (rule bit_word_eqI) (auto simp: bit_simps)
  then show ?thesis
    by (simp only: less_2p_take_bit [OF assms(1)] less_2p_take_bit [OF t]
          less_2p_take_bit [OF assms(3)] move_mask_eq)
qed

lemma int16_roundtrip:
  fixes v :: "32 word"
  assumes "- (2 ^ 15) \<le> sint v" "sint v < 2 ^ 15"
  shows "(scast (ucast v :: 16 word) :: 32 word) = v"
proof (rule signed_word_eqI [where 'a = int])
  have "sint (scast (ucast v :: 16 word) :: 32 word)
          = signed_take_bit 31 (sint (ucast v :: 16 word))"
    by (simp add: signed_scast_eq)
  also have "sint (ucast v :: 16 word) = signed_take_bit 15 (uint v)"
    by (simp add: signed_ucast_eq)
  also have "signed_take_bit 31 (signed_take_bit 15 (uint v)) = signed_take_bit 15 (uint v)"
    by simp
  also have "signed_take_bit 15 (uint v) = signed_take_bit 15 (sint v)"
    by (rule bit_eqI) (auto simp: bit_simps)
  also have "\<dots> = sint v"
    using assms by (simp add: signed_take_bit_int_eq_self)
  finally show "sint (scast (ucast v :: 16 word) :: 32 word) = sint v" .
qed

lemma TTEntry_pack_inverse: "TTEntry_unpack (TTEntry_pack e) = e"
  unfolding TTEntry_unpack_def TTEntry_pack_def
  apply (cases e)
  apply simp
  apply (intro conjI bit_word_eqI)
     apply (auto simp: bit_simps dest: bit_imp_le_length)
  done

text \<open>
  Claim C2: for every key, every value and depth that fit in 16 signed bits, every value
  type below 8, every move below \<open>2^17\<close> and every generation below \<open>2^9\<close>, the entry
  built by the constructor gives back exactly these six fields through its accessors;
  its four fields take 128 bits, and the 128-bit word of the header's layout determines
  the entry.
\<close>

theorem TTEntry_accessors_roundtrip:
  assumes "- (2 ^ 15) \<le> sint v" and "sint v < 2 ^ 15"
    and "- (2 ^ 15) \<le> sint d" and "sint d < 2 ^ 15"
    and "t < 8" and "m < 2 ^ 17" and "g < 2 ^ 9"
  shows "TTEntry_key (TTEntry_ctor k v t d m g) = k
       \<and> TTEntry_value (TTEntry_ctor k v t d m g) = v
       \<and> TTEntry_type (TTEntry_ctor k v t d m g) = t
       \<and> TTEntry_depth (TTEntry_ctor k v t d m g) = d
       \<and> TTEntry_move (TTEntry_ctor k v t d m g) = m
       \<and> TTEntry_generation (TTEntry_ctor k v t d m g) = g
       \<and> TTEntry_bits = 128
       \<and> TTEntry_unpack (TTEntry_pack (TTEntry_ctor k v t d m g)) = TTEntry_ctor k v t d m g"
proof -
  have "TTEntry_value (TTEntry_ctor k v t d m g) = v"
    by (simp add: TTEntry_value_def TTEntry_ctor_def int16_roundtrip [OF assms(1,2)])
  moreover have "TTEntry_depth (TTEntry_ctor k v t d m g) = d"
    by (simp add: TTEntry_depth_def TTEntry_ctor_def int16_roundtrip [OF assms(3,4)])
  moreover have "TTEntry_type (TTEntry_ctor k v t d m g) = t"
    unfolding TTEntry_type_def TTEntry_ctor_def
    using data_type [OF assms(6,5,7)] by simp
  moreover have "TTEntry_move (TTEntry_ctor k v t d m g) = m"
    unfolding TTEntry_move_def TTEntry_ctor_def
    using data_move [OF assms(6,5,7)] by simp
  moreover have "TTEntry_generation (TTEntry_ctor k v t d m g) = g"
    unfolding TTEntry_generation_def TTEntry_ctor_def
    using data_generation [OF assms(6,5,7)] by simp
  moreover have "TTEntry_key (TTEntry_ctor k v t d m g) = k"
    by (simp add: TTEntry_key_def TTEntry_ctor_def)
  moreover have "TTEntry_bits = 128"
    by (simp add: TTEntry_bits_def)
  ultimately show ?thesis
    by (simp add: TTEntry_pack_inverse)
qed

text \<open>
  The round trip at a concrete entry: value \<open>-5\<close>, type 2, depth 7, move \<open>0x1ABCD\<close> and
  generation 300, which needs the ninth bit of the field.
\<close>

theorem TTEntry_accessors_roundtrip_witness:
  "TTEntry_key (TTEntry_ctor 0x123456789ABCDEF0 (- 5) 2 7 0x1ABCD 300) = 0x123456789ABCDEF0
   \<and> TTEntry_value (TTEntry_ctor 0x123456789ABCDEF0 (- 5) 2 7 0x1ABCD 300) = - 5
   \<and> TTEntry_type (TTEntry_ctor 0x123456789ABCDEF0 (- 5) 2 7 0x1ABCD 300) = 2
   \<and> TTEntry_depth (TTEntry_ctor 0x123456789ABCDEF0 (- 5) 2 7 0x1ABCD 300) = 7
   \<and> TTEntry_move (TTEntry_ctor 0x123456789ABCDEF0 (- 5) 2 7 0x1ABCD 300) = 0x1ABCD
   \<and> TTEntry_generation (TTEntry_ctor 0x123456789ABCDEF0 (- 5) 2 7 0x1ABCD 300) = 300
   \<and> TTEntry_bits = 128"
  using TTEntry_accessors_roundtrip [of "- 5" 7 2 "0x1ABCD" 300 "0x123456789ABCDEF0"]
  by simp


section \<open>Game phase\<close>

text \<open>
  Claim C3: when the sum of the two non-pawn materials does not overflow an \<^verbatim>\<open>int\<close>,
  \<^verbatim>\<open>game_phase\<close> returns 128 if the sum is at least 15713, 0 if it is at most 4428, and
  otherwise \<open>((npm - 4428) * 128) / (15713 - 4428)\<close>; the result lies in \<open>[0, 128]\<close>.
  In the third case the dividend is positive, so the truncating division of the code is
  the quotient \<open>div\<close>.
\<close>

theorem game_phase_ramp:
  assumes "- (2 ^ 31) \<le> sint (non_pawn_material pos WHITE) + sint (non_pawn_material pos BLACK)"
    and "sint (non_pawn_material pos WHITE) + sint (non_pawn_material pos BLACK) < 2 ^ 31"
  shows "sint (game_phase pos) =
           (let npm = sint (non_pawn_material pos WHITE) + sint (non_pawn_material pos BLACK)
            in if 15713 \<le> npm then 128
               else if npm \<le> 4428 then 0
               else ((npm - 4428) * 128) div (15713 - 4428))
       \<and> 0 \<le> sint (game_phase pos) \<and> sint (game_phase pos) \<le> 128"
proof -
  define tot where "tot = sint (non_pawn_material pos WHITE) + sint (non_pawn_material pos BLACK)"
  let ?npm = "non_pawn_material pos WHITE + non_pawn_material pos BLACK"
  have npm: "sint ?npm = tot"
    using assms by (simp add: sint_word_ariths signed_take_bit_int_eq_self tot_def)
  have main: "sint (game_phase pos) =
           (if 15713 \<le> tot then 128 else if tot \<le> 4428 then 0
            else ((tot - 4428) * 128) div 11285)"
  proof (cases "15713 \<le> tot")
    case True
    then show ?thesis
      by (simp add: game_phase_def Let_def word_sle_eq MidgameLimit_def npm PHASE_MIDGAME_def)
  next
    case False
    show ?thesis
    proof (cases "tot \<le> 4428")
      case True
      then show ?thesis using False
        by (simp add: game_phase_def Let_def word_sle_eq MidgameLimit_def EndgameLimit_def npm
              PHASE_ENDGAME_def)
    next
      case hi: False
      have d: "sint (?npm - 4428) = tot - 4428"
        unfolding sint_word_diff npm using False hi by (simp add: signed_take_bit_int_eq_self)
      have m: "sint ((?npm - 4428) * 128) = (tot - 4428) * 128"
        unfolding sint_word_mult d using False hi by (simp add: signed_take_bit_int_eq_self)
      have q: "0 \<le> ((tot - 4428) * 128) div 11285" "((tot - 4428) * 128) div 11285 < 128"
        using False hi by simp_all
      have "sint (int_div ((?npm - 4428) * 128) (15713 - 4428)) = ((tot - 4428) * 128) div 11285"
      proof -
        have c: "sint (15713 - 4428 :: 32 word) = 11285" by simp
        have nonneg: "0 \<le> (tot - 4428) * 128" using hi by simp
        have "sint ((?npm - 4428) * 128) sdiv sint (15713 - 4428 :: 32 word)
                = ((tot - 4428) * 128) div 11285"
          unfolding m c using nonneg by (simp add: signed_divide_int_def sgn_if)
        then show ?thesis using q
          by (simp add: int_div_def sint_sbintrunc' signed_take_bit_int_eq_self)
      qed
      then show ?thesis using False hi
        by (simp add: game_phase_def Let_def word_sle_eq MidgameLimit_def EndgameLimit_def npm)
    qed
  qed
  have "0 \<le> sint (game_phase pos) \<and> sint (game_phase pos) \<le> 128"
  proof (cases "15713 \<le> tot \<or> tot \<le> 4428")
    case True
    then show ?thesis unfolding main by auto
  next
    case False
    then have a: "\<not> 15713 \<le> tot" and b: "\<not> tot \<le> 4428"
      by simp_all
    have "0 \<le> ((tot - 4428) * 128) div 11285" "((tot - 4428) * 128) div 11285 < 128"
      using a b by simp_all
    moreover have "sint (game_phase pos) = ((tot - 4428) * 128) div 11285"
      using False by (simp only: main) simp
    ultimately show ?thesis by simp
  qed
  with main show ?thesis
    by (simp add: tot_def Let_def)
qed

text \<open>On the example position the sum is 10000, between the two limits: the phase is 63.\<close>

theorem game_phase_ramp_witness:
  "sint (non_pawn_material example_position WHITE) + sint (non_pawn_material example_position BLACK)
     = 10000
   \<and> sint (game_phase example_position) = 63"
proof -
  have s: "sint (non_pawn_material example_position WHITE)
             + sint (non_pawn_material example_position BLACK) = 10000"
    by (simp add: non_pawn_material_def example_position_def)
  have lo: "- (2 ^ 31) \<le> sint (non_pawn_material example_position WHITE)
             + sint (non_pawn_material example_position BLACK)"
    unfolding s by simp
  have hi: "sint (non_pawn_material example_position WHITE)
             + sint (non_pawn_material example_position BLACK) < 2 ^ 31"
    unfolding s by simp
  from game_phase_ramp [OF lo hi] show ?thesis
    unfolding s by (simp add: Let_def)
qed

section \<open>Open and half-open files\<close>

lemma FileABB_bits:
  "(0x0101010101010101 :: 64 word) =
     push_bit 0 1 OR push_bit 8 1 OR push_bit 16 1 OR push_bit 24 1 OR push_bit 32 1
       OR push_bit 40 1 OR push_bit 48 1 OR push_bit 56 1"
  by simp

lemma bit_push_bit_one: "bit (push_bit m (1 :: 64 word)) k \<longleftrightarrow> k = m \<and> m < 64"
  by (auto simp: bit_exp_iff)

lemma bit_FileABB_cases:
  "bit (0x0101010101010101 :: 64 word) k \<longleftrightarrow>
     (k = 0 \<or> k = 8 \<or> k = 16 \<or> k = 24 \<or> k = 32 \<or> k = 40 \<or> k = 48 \<or> k = 56)"
  apply (subst FileABB_bits)
  apply (simp only: bit_or_iff bit_push_bit_one)
  apply simp
  done

lemma rank_cases:
  "(r::nat) < 8 \<Longrightarrow> r = 0 \<or> r = 1 \<or> r = 2 \<or> r = 3 \<or> r = 4 \<or> r = 5 \<or> r = 6 \<or> r = 7"
  by linarith

lemma bit_FileABB: "bit (0x0101010101010101 :: 64 word) k \<longleftrightarrow> (\<exists>r<8. k = 8 * r)"
  unfolding bit_FileABB_cases
proof
  assume "k = 0 \<or> k = 8 \<or> k = 16 \<or> k = 24 \<or> k = 32 \<or> k = 40 \<or> k = 48 \<or> k = 56"
  then have "k div 8 < 8 \<and> k = 8 * (k div 8)" by (elim disjE) simp_all
  then show "\<exists>r<8. k = 8 * r" by blast
next
  assume "\<exists>r<8. k = 8 * r"
  then obtain r where r: "r < 8" "k = 8 * r" by blast
  from rank_cases [OF r(1)]
  show "k = 0 \<or> k = 8 \<or> k = 16 \<or> k = 24 \<or> k = 32 \<or> k = 40 \<or> k = 48 \<or> k = 56"
    unfolding r(2) by (elim disjE) simp_all
qed

lemma bit_file_bb:
  assumes "f < 8"
  shows "bit (file_bb f) n \<longleftrightarrow> (\<exists>r<8. n = 8 * r + f)"
proof -
  have "bit (file_bb f) n \<longleftrightarrow> f \<le> n \<and> n < 64 \<and> bit (0x0101010101010101 :: 64 word) (n - f)"
    unfolding file_bb_def bit_push_bit_iff by (auto dest: bit_imp_le_length)
  also have "\<dots> \<longleftrightarrow> f \<le> n \<and> n < 64 \<and> (\<exists>r<8. n - f = 8 * r)"
    by (simp only: bit_FileABB)
  also have "\<dots> \<longleftrightarrow> (\<exists>r<8. n = 8 * r + f)"
  proof
    assume "f \<le> n \<and> n < 64 \<and> (\<exists>r<8. n - f = 8 * r)"
    then obtain r where "r < 8" "n - f = 8 * r" "f \<le> n" by blast
    then have "r < 8 \<and> n = 8 * r + f" by linarith
    then show "\<exists>r<8. n = 8 * r + f" by blast
  next
    assume "\<exists>r<8. n = 8 * r + f"
    then obtain r where r: "r < 8" "n = 8 * r + f" by blast
    then have "f \<le> n" "n < 64" "r < 8 \<and> n - f = 8 * r" using assms by linarith+
    then show "f \<le> n \<and> n < 64 \<and> (\<exists>r<8. n - f = 8 * r)" by blast
  qed
  finally show ?thesis .
qed

lemma no_bit_on_file:
  assumes "f < 8"
  shows "(p AND file_bb f = 0) \<longleftrightarrow> (\<forall>r<8. \<not> bit p (8 * r + f))"
proof
  assume z: "p AND file_bb f = 0"
  show "\<forall>r<8. \<not> bit p (8 * r + f)"
  proof (intro allI impI notI)
    fix r assume "r < 8" "bit p (8 * r + f)"
    then have "bit (p AND file_bb f) (8 * r + f)"
      using bit_file_bb [OF assms, of "8 * r + f"] by (auto simp: bit_and_iff)
    then show False using z by simp
  qed
next
  assume a: "\<forall>r<8. \<not> bit p (8 * r + f)"
  show "p AND file_bb f = 0"
  proof (rule bit_word_eqI)
    fix n assume "n < LENGTH(64)"
    show "bit (p AND file_bb f) n = bit (0 :: 64 word) n"
      using a bit_file_bb [OF assms, of n] by (auto simp: bit_and_iff)
  qed
qed

text \<open>
  Claim C4, as stated: the two functions differ, \<^verbatim>\<open>file_is_half_open\<close> looking at the
  own pawns and \<^verbatim>\<open>file_is_open\<close> at the pawns of both colours. On a board with no white
  pawn and a black pawn on a7, the a-file is half open for White and not open in the
  spec's words; the two functions of the code agree on White's pawns (both answer yes)
  and on the pawns of both colours (both answer no).
\<close>

theorem file_is_open_half_open_counterexample:
  "spec_file_is_half_open 0 (push_bit 48 1) 0
   \<and> \<not> spec_file_is_open 0 (push_bit 48 1) 0
   \<and> file_is_half_open 0 0 \<and> file_is_open 0 0
   \<and> \<not> file_is_half_open (0 OR push_bit 48 1) 0 \<and> \<not> file_is_open (0 OR push_bit 48 1) 0"
  by (simp add: spec_file_is_half_open_def spec_file_is_open_def file_is_open_def
        file_is_half_open_def file_bb_def upt_rec bit_simps)

text \<open>
  Claim C4, amended: \<^verbatim>\<open>file_is_open\<close> and \<^verbatim>\<open>file_is_half_open\<close> are equal on every
  bitboard and every file: each says that the bitboard it is given has no bit on the
  file. Which notion comes out depends on the bitboard the caller passes: on a side's own
  pawns either function decides "no own pawns on file f", and on the pawns of both
  colours either decides "no pawns of either color on file f".
\<close>

theorem file_is_open_half_open_same_body:
  "file_is_open p f = file_is_half_open p f
   \<and> (f < 8 \<longrightarrow> file_is_half_open own f = spec_file_is_half_open own their f
              \<and> file_is_open own f = spec_file_is_half_open own their f
              \<and> file_is_open (own OR their) f = spec_file_is_open own their f
              \<and> file_is_half_open (own OR their) f = spec_file_is_open own their f)"
proof -
  have h: "f < 8 \<Longrightarrow> file_is_half_open own f = spec_file_is_half_open own their f"
    by (simp add: file_is_half_open_def spec_file_is_half_open_def no_bit_on_file list_all_iff
          Ball_def)
  have o: "f < 8 \<Longrightarrow> file_is_open (own OR their) f = spec_file_is_open own their f"
    by (simp add: file_is_open_def spec_file_is_open_def no_bit_on_file list_all_iff Ball_def
          bit_or_iff)
  have same: "file_is_open q f = file_is_half_open q f" for q
    by (simp add: file_is_open_def file_is_half_open_def)
  show ?thesis using h o by (simp add: same)
qed

text \<open>
  White pawn on a2, black pawn on d7, file d: half open for White, not open; both
  functions say so when given the matching bitboard.
\<close>

theorem file_is_open_half_open_same_body_witness:
  "(3::nat) < 8
   \<and> file_is_open (push_bit 8 1) 3 = file_is_half_open (push_bit 8 1) 3
   \<and> file_is_open (push_bit 8 1) 3
   \<and> spec_file_is_half_open (push_bit 8 1) (push_bit 51 1) 3
   \<and> \<not> spec_file_is_open (push_bit 8 1) (push_bit 51 1) 3
   \<and> \<not> file_is_half_open (push_bit 8 1 OR push_bit 51 1) 3"
  using file_is_open_half_open_same_body [of "push_bit 8 1" 3 "push_bit 8 1" "push_bit 51 1"]
  by (simp add: file_is_open_def file_is_half_open_def file_bb_def)


section \<open>Registrations in the endgame function maps\<close>

lemma map_insert_present: "m k \<noteq> None \<Longrightarrow> map_insert m k v = m"
  by (auto simp: map_insert_def split: option.splits)

lemma map_insert_keeps: "m k = Some v \<Longrightarrow> map_insert m k' v' k = Some v"
  by (auto simp: map_insert_def split: option.splits)

lemma map_insert_absent: "m k = None \<Longrightarrow> map_insert m k v k = Some v"
  by (simp add: map_insert_def)

lemma add_ESF_present:
  "ESFmap ef (buildKey fk kc) \<noteq> None \<Longrightarrow> add_ESF fk kc c f ef = ef"
  by (simp add: add_ESF_def map_insert_present)

lemma add_ESF_keeps:
  "ESFmap ef k = Some si \<Longrightarrow> ESFmap (add_ESF fk kc c f ef) k = Some si"
  by (simp add: add_ESF_def map_insert_keeps)

lemma add_ESF_bound: "ESFmap (add_ESF fk kc c f ef) (buildKey fk kc) \<noteq> None"
  by (auto simp: add_ESF_def map_insert_def split: option.splits)

lemma add_ESF_fresh:
  "ESFmap ef (buildKey fk kc) = None \<Longrightarrow>
   ESFmap (add_ESF fk kc c f ef) (buildKey fk kc) = Some \<lparr>col = c, fun_ptr = f\<rparr>"
  by (simp add: add_ESF_def map_insert_absent)

lemma add_ESF_other:
  "k \<noteq> buildKey fk kc \<Longrightarrow> ESFmap (add_ESF fk kc c f ef) k = ESFmap ef k"
  by (auto simp: add_ESF_def map_insert_def split: option.splits)

lemma add_ESFs_Nil: "add_ESFs fk [] ef = ef"
  by (simp add: add_ESFs_def)

lemma add_ESFs_Cons:
  "add_ESFs fk (r # rs) ef = add_ESFs fk rs (add_ESF fk (fst r) (fst (snd r)) (snd (snd r)) ef)"
  by (simp add: add_ESFs_def)

lemma add_ESFs_append: "add_ESFs fk (rs @ rs') ef = add_ESFs fk rs' (add_ESFs fk rs ef)"
  by (simp add: add_ESFs_def)

lemma add_ESFs_keeps:
  "ESFmap ef k = Some si \<Longrightarrow> ESFmap (add_ESFs fk rs ef) k = Some si"
  by (induction rs arbitrary: ef) (simp_all add: add_ESFs_Nil add_ESFs_Cons add_ESF_keeps)

lemma add_ESFs_other:
  "k \<notin> buildKey fk ` fst ` set rs \<Longrightarrow> ESFmap (add_ESFs fk rs ef) k = ESFmap ef k"
  by (induction rs arbitrary: ef) (simp_all add: add_ESFs_Nil add_ESFs_Cons add_ESF_other)

lemma add_EEF_ESFmap: "ESFmap (add_EEF fk kc f ef) = ESFmap ef"
  by (simp add: add_EEF_def)

lemma add_EEFs_ESFmap: "ESFmap (add_EEFs fk rs ef) = ESFmap ef"
  unfolding add_EEFs_def by (induction rs arbitrary: ef) (simp_all add: add_EEF_ESFmap)

lemma scaling_registrations_split:
  "scaling_registrations =
     take 12 scaling_registrations
       @ [(''KRPPKRP'', WHITE, ScaleKRPPKRP), (''KRPKRPP'', BLACK, ScaleKRPKRPP)]"
  by (simp add: scaling_registrations_def)

lemma take_12_registrations:
  "take 12 scaling_registrations =
     take 10 scaling_registrations
       @ [(''KRPPKRP'', WHITE, ScaleKRPPKRP), (''KRPKRPP'', BLACK, ScaleKRPKRPP)]"
  by (simp add: scaling_registrations_def)

lemma take_11_registrations:
  "take 11 scaling_registrations =
     take 10 scaling_registrations @ [(''KRPPKRP'', WHITE, ScaleKRPPKRP)]"
  by (simp add: scaling_registrations_def)

lemma duplicates_change_nothing:
  "add_ESFs fk scaling_registrations ef = add_ESFs fk (take 12 scaling_registrations) ef"
proof -
  let ?e10 = "add_ESFs fk (take 10 scaling_registrations) ef"
  let ?e11 = "add_ESF fk ''KRPPKRP'' WHITE ScaleKRPPKRP ?e10"
  let ?e12 = "add_ESF fk ''KRPKRPP'' BLACK ScaleKRPKRPP ?e11"
  have e12: "add_ESFs fk (take 12 scaling_registrations) ef = ?e12"
    by (simp only: take_12_registrations add_ESFs_append add_ESFs_Cons add_ESFs_Nil
          fst_conv snd_conv)
  have "ESFmap ?e11 (buildKey fk ''KRPPKRP'') \<noteq> None" by (rule add_ESF_bound)
  then obtain si where "ESFmap ?e11 (buildKey fk ''KRPPKRP'') = Some si" by blast
  then have b1: "ESFmap ?e12 (buildKey fk ''KRPPKRP'') \<noteq> None"
    by (simp add: add_ESF_keeps)
  have b2: "ESFmap ?e12 (buildKey fk ''KRPKRPP'') \<noteq> None" by (rule add_ESF_bound)
  have s13: "add_ESF fk ''KRPPKRP'' WHITE ScaleKRPPKRP ?e12 = ?e12"
    using b1 by (rule add_ESF_present)
  have s14: "add_ESF fk ''KRPKRPP'' BLACK ScaleKRPKRPP ?e12 = ?e12"
    using b2 by (rule add_ESF_present)
  have "add_ESFs fk scaling_registrations ef
      = add_ESF fk ''KRPKRPP'' BLACK ScaleKRPKRPP (add_ESF fk ''KRPPKRP'' WHITE ScaleKRPPKRP
           (add_ESFs fk (take 12 scaling_registrations) ef))"
    by (subst scaling_registrations_split)
       (simp only: add_ESFs_append add_ESFs_Cons add_ESFs_Nil fst_conv snd_conv)
  then show ?thesis by (simp only: e12 s13 s14)
qed

lemma first_registration_kept:
  assumes fresh: "buildKey fk kc \<notin> set (map (buildKey fk \<circ> fst) before)"
    and regs: "scaling_registrations = before @ (kc, c, f) # after"
  shows "getESF (fst (EndgameFunctions_ctor fk)) (buildKey fk kc) = Some (f, c)"
proof -
  let ?k = "buildKey fk kc"
  let ?ef1 = "add_EEFs fk evaluation_registrations \<lparr>EEFmap = Map.empty, ESFmap = Map.empty\<rparr>"
  let ?eb = "add_ESFs fk before ?ef1"
  let ?e = "add_ESF fk kc c f ?eb"
  have "?k \<notin> buildKey fk ` fst ` set before"
    using fresh by (simp add: image_image)
  then have "ESFmap ?eb ?k = ESFmap ?ef1 ?k" by (rule add_ESFs_other)
  then have "ESFmap ?eb ?k = None" by (simp add: add_EEFs_ESFmap)
  then have "ESFmap ?e ?k = Some \<lparr>col = c, fun_ptr = f\<rparr>"
    by (rule add_ESF_fresh)
  then have "ESFmap (add_ESFs fk after ?e) ?k = Some \<lparr>col = c, fun_ptr = f\<rparr>"
    by (rule add_ESFs_keeps)
  moreover have "add_ESFs fk scaling_registrations ?ef1 = add_ESFs fk after ?e"
    by (simp only: regs add_ESFs_append add_ESFs_Cons fst_conv snd_conv)
  ultimately show ?thesis
    by (simp add: EndgameFunctions_ctor_def Let_def getESF_def)
qed

lemma registrations_at_KRPPKRP:
  "scaling_registrations =
     take 10 scaling_registrations @ (''KRPPKRP'', WHITE, ScaleKRPPKRP) # drop 11 scaling_registrations"
  by (simp add: scaling_registrations_def)

lemma registrations_at_KRPKRPP:
  "scaling_registrations =
     take 11 scaling_registrations @ (''KRPKRPP'', BLACK, ScaleKRPKRPP) # drop 12 scaling_registrations"
  by (simp add: scaling_registrations_def)

text \<open>
  Claim C8: adding a scaling function under a key that \<^verbatim>\<open>ESFmap\<close> already holds leaves
  the registry as it is, so \<^verbatim>\<open>add\<close> twice is \<^verbatim>\<open>add\<close> once; the constructor's two
  repeated lines change nothing, its registry is the one after the first twelve scaling
  registrations; and \<^verbatim>\<open>getESF\<close> on the keys of \<^verbatim>\<open>KRPPKRP\<close> and \<^verbatim>\<open>KRPKRPP\<close> gives
  the function and colour of the first registration (when no earlier key code has the
  same material key).
\<close>

theorem duplicate_scaling_registration:
  "(ESFmap ef (buildKey fk kc) \<noteq> None \<longrightarrow> add_ESF fk kc c' f' ef = ef)
   \<and> add_ESF fk kc c' f' (add_ESF fk kc c f ef) = add_ESF fk kc c f ef
   \<and> fst (EndgameFunctions_ctor fk) =
       add_ESFs fk (take 12 scaling_registrations)
         (add_EEFs fk evaluation_registrations \<lparr>EEFmap = Map.empty, ESFmap = Map.empty\<rparr>)
   \<and> (buildKey fk ''KRPPKRP'' \<notin> set (map (buildKey fk \<circ> fst) (take 10 scaling_registrations))
        \<longrightarrow> getESF (fst (EndgameFunctions_ctor fk)) (buildKey fk ''KRPPKRP'')
              = Some (ScaleKRPPKRP, WHITE))
   \<and> (buildKey fk ''KRPKRPP'' \<notin> set (map (buildKey fk \<circ> fst) (take 11 scaling_registrations))
        \<longrightarrow> getESF (fst (EndgameFunctions_ctor fk)) (buildKey fk ''KRPKRPP'')
              = Some (ScaleKRPKRPP, BLACK))"
proof -
  have twice: "add_ESF fk kc c' f' (add_ESF fk kc c f ef) = add_ESF fk kc c f ef"
    by (rule add_ESF_present) (rule add_ESF_bound)
  have ctor: "fst (EndgameFunctions_ctor fk) =
       add_ESFs fk (take 12 scaling_registrations)
         (add_EEFs fk evaluation_registrations \<lparr>EEFmap = Map.empty, ESFmap = Map.empty\<rparr>)"
    by (simp add: EndgameFunctions_ctor_def Let_def duplicates_change_nothing)
  show ?thesis
    using twice ctor
      first_registration_kept [OF _ registrations_at_KRPPKRP, of fk]
      first_registration_kept [OF _ registrations_at_KRPKRPP, of fk]
    by (simp add: add_ESF_present)
qed

lemmas example_key_defs =
  buildKey_def buildKey_fen_def toupper_def tolower_def string_of_nat.simps digit_char_def
  char_of_def bit_simps example_fen_key_def

lemma example_KRPPKRP_fresh:
  "buildKey example_fen_key ''KRPPKRP''
     \<notin> set (map (buildKey example_fen_key \<circ> fst) (take 10 scaling_registrations))"
  by (simp add: scaling_registrations_def example_key_defs)

lemma example_KRPKRPP_fresh:
  "buildKey example_fen_key ''KRPKRPP''
     \<notin> set (map (buildKey example_fen_key \<circ> fst) (take 11 scaling_registrations))"
  by (simp add: scaling_registrations_def example_key_defs)

text \<open>
  With the example keys: the registry built by the constructor holds the key of
  \<^verbatim>\<open>KRPPKRP\<close>, another registration under it (even of a different function and colour)
  changes nothing, and the two lookups give the first registrations.
\<close>

theorem duplicate_scaling_registration_witness:
  "ESFmap (fst (EndgameFunctions_ctor example_fen_key)) (buildKey example_fen_key ''KRPPKRP'') \<noteq> None
   \<and> add_ESF example_fen_key ''KRPPKRP'' BLACK ScaleKNPK (fst (EndgameFunctions_ctor example_fen_key))
       = fst (EndgameFunctions_ctor example_fen_key)
   \<and> getESF (fst (EndgameFunctions_ctor example_fen_key)) (buildKey example_fen_key ''KRPPKRP'')
       = Some (ScaleKRPPKRP, WHITE)
   \<and> getESF (fst (EndgameFunctions_ctor example_fen_key)) (buildKey example_fen_key ''KRPKRPP'')
       = Some (ScaleKRPKRPP, BLACK)"
proof -
  let ?ef = "fst (EndgameFunctions_ctor example_fen_key)"
  note inst = duplicate_scaling_registration
               [of ?ef example_fen_key "''KRPPKRP''" BLACK ScaleKNPK WHITE ScaleKRPPKRP]
  have g1: "getESF ?ef (buildKey example_fen_key ''KRPPKRP'') = Some (ScaleKRPPKRP, WHITE)"
    using inst example_KRPPKRP_fresh by blast
  have g2: "getESF ?ef (buildKey example_fen_key ''KRPKRPP'') = Some (ScaleKRPKRPP, BLACK)"
    using inst example_KRPKRPP_fresh by blast
  have present: "ESFmap ?ef (buildKey example_fen_key ''KRPPKRP'') \<noteq> None"
    using g1 by (auto simp: getESF_def split: option.splits)
  then have "add_ESF example_fen_key ''KRPPKRP'' BLACK ScaleKNPK ?ef = ?ef"
    using inst by blast
  with present g1 g2 show ?thesis by simp
qed

section \<open>Material information for two knights against the bare king\<close>

lemma compute_material_info_KNN:
  assumes "get_material_key pos = KNNKMaterialKey mk \<or> get_material_key pos = KKNNMaterialKey mk"
  shows "compute_material_info mk pv ef pos old =
           (clear old)\<lparr>mi_key := get_material_key pos, factor := (\<lambda>c. 0)\<rparr>"
  using assms by (auto simp: compute_material_info_def Let_def)

lemma example_KNNK_key: "buildKey example_fen_key ''KNNK'' = 17954933073844057695"
  by (simp add: example_key_defs)

lemma example_entry_index:
  "entry_index example_table (get_material_key KNNK_position) = Some 1"
  by (simp add: entry_index_def example_table_def MaterialInfoTable_ctor_def
        EndgameFunctions_ctor_def Let_def get_material_key_def KNNK_position_def
        example_KNNK_key)

lemma example_position_key: "get_material_key KNNK_position = KNNKMaterialKey example_keys"
  by (simp add: get_material_key_def KNNK_position_def example_keys_def
        MaterialInfoTable_ctor_def EndgameFunctions_ctor_def Let_def)

lemma example_slot_differs:
  "mi_key (mit_entries example_table ! 1) \<noteq> get_material_key KNNK_position"
  by (simp add: example_table_def MaterialInfoTable_ctor_def EndgameFunctions_ctor_def Let_def
        example_entry_def get_material_key_def KNNK_position_def example_KNNK_key)

text \<open>
  Claim C5, as stated: for the material key of KNN against K the entry returned selects
  an evaluation function. On the example table, which does not hold the key yet, the
  entry computed for the example position has no evaluation function at all: the
  pointer is null, and the two scale factors are 0.
\<close>

theorem KNNK_no_evaluation_function_counterexample:
  "get_material_key KNNK_position = KNNKMaterialKey example_keys
   \<and> get_material_info example_keys example_piece_values example_table KNNK_position \<noteq> None
   \<and> evaluationFunction (fst (the
         (get_material_info example_keys example_piece_values example_table KNNK_position)))
       = None
   \<and> factor (fst (the
         (get_material_info example_keys example_piece_values example_table KNNK_position)))
         WHITE = 0
   \<and> factor (fst (the
         (get_material_info example_keys example_piece_values example_table KNNK_position)))
         BLACK = 0"
proof -
  let ?old = "mit_entries example_table ! 1"
  have "get_material_info example_keys example_piece_values example_table KNNK_position
          = Some (compute_material_info example_keys example_piece_values (funcs example_table)
                    KNNK_position ?old,
                  example_table\<lparr>mit_entries := (mit_entries example_table)
                    [1 := compute_material_info example_keys example_piece_values
                            (funcs example_table) KNNK_position ?old]\<rparr>)"
    using example_slot_differs
    by (simp only: get_material_info_def Let_def example_entry_index option.case if_False)
  moreover have "compute_material_info example_keys example_piece_values (funcs example_table)
                    KNNK_position ?old
                  = (clear ?old)\<lparr>mi_key := get_material_key KNNK_position, factor := (\<lambda>c. 0)\<rparr>"
    using example_position_key by (simp add: compute_material_info_KNN)
  ultimately show ?thesis
    using example_position_key by (simp add: clear_def)
qed

text \<open>
  Claim C5, amended: for every position whose material key is that of KNN against K (for
  either colour) and whose table slot exists, \<^verbatim>\<open>get_material_info\<close> returns the stored
  entry when the slot already holds the key, and otherwise computes, stores and returns
  an entry with this key that has no evaluation function and no scaling function and
  whose scale factors are 0 for both colours: the draw is recognised through the
  factors, which scale the static evaluation to nothing; it is not replaced.
\<close>

theorem get_material_info_KNNK:
  assumes "get_material_key pos = KNNKMaterialKey mk \<or> get_material_key pos = KKNNMaterialKey mk"
    and "entry_index t (get_material_key pos) = Some i"
  shows "(let drawn = (clear (mit_entries t ! i))\<lparr>mi_key := get_material_key pos, factor := (\<lambda>c. 0)\<rparr>
          in get_material_info mk pv t pos =
               (if mi_key (mit_entries t ! i) = get_material_key pos
                then Some (mit_entries t ! i, t)
                else Some (drawn, t\<lparr>mit_entries := (mit_entries t)[i := drawn]\<rparr>))
             \<and> mi_key drawn = get_material_key pos
             \<and> evaluationFunction drawn = None
             \<and> scalingFunction drawn WHITE = None \<and> scalingFunction drawn BLACK = None
             \<and> factor drawn WHITE = 0 \<and> factor drawn BLACK = 0)"
  using assms(2)
  by (simp add: get_material_info_def Let_def compute_material_info_KNN [OF assms(1)] clear_def)

text \<open>
  On the example table the slot of the key is the second one and holds another key: the
  call returns the drawn entry.
\<close>

theorem get_material_info_KNNK_witness:
  "get_material_key KNNK_position = KNNKMaterialKey example_keys
   \<and> entry_index example_table (get_material_key KNNK_position) = Some 1
   \<and> mi_key (mit_entries example_table ! 1) \<noteq> get_material_key KNNK_position
   \<and> get_material_info example_keys example_piece_values example_table KNNK_position \<noteq> None
   \<and> mi_key (fst (the
         (get_material_info example_keys example_piece_values example_table KNNK_position)))
       = get_material_key KNNK_position
   \<and> evaluationFunction (fst (the
         (get_material_info example_keys example_piece_values example_table KNNK_position)))
       = None
   \<and> factor (fst (the
         (get_material_info example_keys example_piece_values example_table KNNK_position)))
         WHITE = 0"
proof -
  have k: "get_material_key KNNK_position = KNNKMaterialKey example_keys
           \<or> get_material_key KNNK_position = KKNNMaterialKey example_keys"
    using example_position_key by simp
  from get_material_info_KNNK [OF k example_entry_index, of example_piece_values]
  show ?thesis
    using example_position_key example_slot_differs example_entry_index
    by (simp add: Let_def clear_def)
qed


section \<open>Setting options and pressing buttons\<close>

lemma set_option_value_present:
  assumes "map_of (options s) nm = Some opt"
  shows "map_of (options (set_option_value nm val s)) nm =
           Some (opt\<lparr>currentValue :=
                   (if val = ''true'' then ''1'' else if val = ''false'' then ''0'' else val)\<rparr>)"
    and "cout (set_option_value nm val s) = cout s"
    and "n' \<noteq> nm \<Longrightarrow> map_of (options (set_option_value nm val s)) n' = map_of (options s) n'"
  using assms by (simp_all add: set_option_value_def Let_def map_of_map_entry)

lemma extract_bool_one: "fst (extract_bool (istringstream_ctor ''1'') False) = True"
  by (simp add: extract_bool_def sentry_def istringstream_ctor_def isspace_def read_integer_def
        isdigit_def nat_of_digits_def)

lemma extract_bool_zero: "fst (extract_bool (istringstream_ctor ''0'') False) = False"
  by (simp add: extract_bool_def sentry_def istringstream_ctor_def isspace_def read_integer_def
        isdigit_def nat_of_digits_def)

lemma get_option_value_bool_one:
  "map_of (options s) b = Some opt \<Longrightarrow> currentValue opt = ''1'' \<Longrightarrow> get_option_value_bool s b"
  by (simp add: get_option_value_bool_def extract_bool_one)

lemma get_option_value_bool_zero:
  "map_of (options s) b = Some opt \<Longrightarrow> currentValue opt = ''0'' \<Longrightarrow> \<not> get_option_value_bool s b"
  by (simp add: get_option_value_bool_def extract_bool_zero)

lemma example_Hash:
  "map_of (options example_state) ''Hash'' =
     Some \<lparr> name = ''Hash'', defaultValue = ''32'', currentValue = ''32'', type = SPIN,
            idx = 46, minValue = 4, maxValue = 4096, comboValues = [] \<rparr>"
  by code_simp

lemma example_Clear_Hash:
  "map_of (options example_state) ''Clear Hash'' =
     Some \<lparr> name = ''Clear Hash'', defaultValue = ''0'', currentValue = ''0'', type = BUTTON,
            idx = 47, minValue = 0, maxValue = 0, comboValues = [] \<rparr>"
  by code_simp

lemma example_no_Hash_Size: "map_of (options example_state) ''Hash Size'' = None"
  by code_simp

lemma extract_int_5000: "fst (extract_int (istringstream_ctor ''5000'') 0) = 5000"
  by (simp add: extract_int_def sentry_def istringstream_ctor_def isspace_def read_integer_def
        isdigit_def nat_of_digits_def INT_MAX_def INT_MIN_def)

text \<open>
  Claim C6, as stated: a value outside the range of a spin option is clamped into the
  range or leaves the current value as it was. The option "Hash" has the range 4..4096
  and the current value 32; after \<^verbatim>\<open>set_option_value("Hash", "5000")\<close> its current
  value reads 5000, which is neither in the range nor the previous value.
\<close>

theorem set_option_value_out_of_range_counterexample:
  "type (the (map_of (options example_state) ''Hash'')) = SPIN
   \<and> minValue (the (map_of (options example_state) ''Hash'')) = 4
   \<and> maxValue (the (map_of (options example_state) ''Hash'')) = 4096
   \<and> currentValue (the (map_of (options example_state) ''Hash'')) = ''32''
   \<and> currentValue (the
        (map_of (options (set_option_value ''Hash'' ''5000'' example_state)) ''Hash''))
       = ''5000''
   \<and> get_option_value_int (set_option_value ''Hash'' ''5000'' example_state) ''Hash'' = 5000
   \<and> \<not> (4 \<le> get_option_value_int (set_option_value ''Hash'' ''5000'' example_state) ''Hash''
          \<and> get_option_value_int (set_option_value ''Hash'' ''5000'' example_state) ''Hash'' \<le> 4096)
   \<and> get_option_value_int (set_option_value ''Hash'' ''5000'' example_state) ''Hash''
       \<noteq> get_option_value_int example_state ''Hash''"
proof -
  have after: "map_of (options (set_option_value ''Hash'' ''5000'' example_state)) ''Hash''
        = Some \<lparr> name = ''Hash'', defaultValue = ''32'', currentValue = ''5000'', type = SPIN,
                 idx = 46, minValue = 4, maxValue = 4096, comboValues = [] \<rparr>"
    using set_option_value_present(1) [OF example_Hash, of "''5000''"] by simp
  have new: "get_option_value_int (set_option_value ''Hash'' ''5000'' example_state) ''Hash'' = 5000"
    by (simp add: get_option_value_int_def after extract_int_5000)
  have old: "get_option_value_int example_state ''Hash'' = 32"
    by (simp add: get_option_value_int_def example_Hash extract_int_def sentry_def
          istringstream_ctor_def isspace_def read_integer_def isdigit_def nat_of_digits_def
          INT_MAX_def INT_MIN_def)
  show ?thesis
    by (simp add: example_Hash after new old)
qed

text \<open>
  Claim C6, amended: for every option present in the registry, spin or not, and every
  value, inside or outside the option's range, \<^verbatim>\<open>set_option_value\<close> stores the value
  as the current value as it is (only "true" and "false" become "1" and "0"); it does
  not compare it with \<^verbatim>\<open>minValue\<close> and \<^verbatim>\<open>maxValue\<close>, neither clamps nor ignores it,
  prints nothing and leaves every other option and field alone.
\<close>

theorem set_option_value_stores_unchecked:
  assumes "map_of (options s) nm = Some opt"
  shows "map_of (options (set_option_value nm val s)) nm =
           Some (opt\<lparr>currentValue :=
                   (if val = ''true'' then ''1'' else if val = ''false'' then ''0'' else val)\<rparr>)
       \<and> cout (set_option_value nm val s) = cout s
       \<and> (\<forall>n'. n' \<noteq> nm \<longrightarrow>
             map_of (options (set_option_value nm val s)) n' = map_of (options s) n')"
  using set_option_value_present [OF assms] by simp

text \<open>The same call on "Hash": the entry afterwards, and another option untouched.\<close>

theorem set_option_value_stores_unchecked_witness:
  "map_of (options (set_option_value ''Hash'' ''5000'' example_state)) ''Hash''
     = Some \<lparr> name = ''Hash'', defaultValue = ''32'', currentValue = ''5000'', type = SPIN,
              idx = 46, minValue = 4, maxValue = 4096, comboValues = [] \<rparr>
   \<and> cout (set_option_value ''Hash'' ''5000'' example_state) = cout example_state
   \<and> map_of (options (set_option_value ''Hash'' ''5000'' example_state)) ''Clear Hash''
       = map_of (options example_state) ''Clear Hash''"
  using set_option_value_stores_unchecked [OF example_Hash, of "''5000''"]
  by simp

text \<open>
  Claim C9: for a name that is not in the options map, \<^verbatim>\<open>set_option_value\<close> leaves the
  map exactly as it was, with no new entry and no changed value; it appends the line
  "No such option: " and the name to the output.
\<close>

theorem set_option_value_unknown_name:
  assumes "map_of (options s) nm = None"
  shows "options (set_option_value nm val s) = options s
       \<and> cout (set_option_value nm val s) = cout s @ ''No such option: '' @ nm @ [CHR 0x0A]"
  using assms by (simp add: set_option_value_def Let_def)

text \<open>"Hash Size" is not an option of the engine.\<close>

theorem set_option_value_unknown_name_witness:
  "map_of (options example_state) ''Hash Size'' = None
   \<and> options (set_option_value ''Hash Size'' ''64'' example_state) = options example_state
   \<and> cout (set_option_value ''Hash Size'' ''64'' example_state)
       = ''No such option: Hash Size'' @ [CHR 0x0A]"
proof -
  have empty: "cout example_state = []"
    by (simp add: example_state_def)
  from set_option_value_unknown_name [OF example_no_Hash_Size, of "''64''"]
  show ?thesis
    by (simp add: example_no_Hash_Size empty)
qed

text \<open>
  Claim C10: for every option of the registry (a button in particular), after
  \<^verbatim>\<open>push_button\<close> the first \<^verbatim>\<open>button_was_pressed\<close> returns true and resets the value
  to "0", and the call that follows returns false; on a button whose value is still the
  "0" it was constructed with, \<^verbatim>\<open>button_was_pressed\<close> returns false and changes
  nothing.
\<close>

theorem button_pressed_once:
  assumes "map_of (options s) b = Some opt"
  shows "fst (button_was_pressed b (push_button b s))
       \<and> \<not> fst (button_was_pressed b (snd (button_was_pressed b (push_button b s))))
       \<and> map_of (options (snd (button_was_pressed b (push_button b s)))) b
            = Some (opt\<lparr>currentValue := ''0''\<rparr>)
       \<and> (currentValue opt = stringify_bool False \<longrightarrow> button_was_pressed b s = (False, s))"
proof -
  let ?s1 = "push_button b s"
  have m1: "map_of (options ?s1) b = Some (opt\<lparr>currentValue := ''1''\<rparr>)"
    using set_option_value_present(1) [OF assms, of "''true''"] by (simp add: push_button_def)
  have "get_option_value_bool ?s1 b" by (rule get_option_value_bool_one [OF m1]) simp
  then have r1: "button_was_pressed b ?s1 = (True, set_option_value b ''false'' ?s1)"
    by (simp add: button_was_pressed_def)
  let ?s2 = "set_option_value b ''false'' ?s1"
  have m2: "map_of (options ?s2) b = Some (opt\<lparr>currentValue := ''0''\<rparr>)"
    using set_option_value_present(1) [OF m1, of "''false''"] by simp
  have "\<not> get_option_value_bool ?s2 b" by (rule get_option_value_bool_zero [OF m2]) simp
  then have r2: "button_was_pressed b ?s2 = (False, ?s2)"
    by (simp add: button_was_pressed_def)
  have never: "currentValue opt = stringify_bool False \<longrightarrow> button_was_pressed b s = (False, s)"
    using get_option_value_bool_zero [OF assms]
    by (simp add: button_was_pressed_def stringify_bool_def)
  show ?thesis using r1 r2 m2 never by simp
qed

text \<open>The button "Clear Hash" of the engine, never pushed, then pushed once.\<close>

theorem button_pressed_once_witness:
  "type (the (map_of (options example_state) ''Clear Hash'')) = BUTTON
   \<and> button_was_pressed ''Clear Hash'' example_state = (False, example_state)
   \<and> fst (button_was_pressed ''Clear Hash'' (push_button ''Clear Hash'' example_state))
   \<and> \<not> fst (button_was_pressed ''Clear Hash''
              (snd (button_was_pressed ''Clear Hash'' (push_button ''Clear Hash'' example_state))))"
  using button_pressed_once [OF example_Clear_Hash]
  by (simp add: example_Clear_Hash stringify_bool_def)

section \<open>The go command and movetime\<close>

text \<open>
  When the loop of \<^verbatim>\<open>go\<close> ends with a nonzero \<^verbatim>\<open>moveTime\<close>, \<^verbatim>\<open>go\<close> calls
  \<^verbatim>\<open>think\<close> with the infinite flag true and with that time as the maximal time,
  whatever the flag was after the loop, that is, also when the command had no token
  \<^verbatim>\<open>infinite\<close>.
\<close>

lemma go_loop_end_movetime_infinite:
  assumes "go_loop (move_from_string RootPosition) uip [] go_initial = Some (Inr g)"
    and "moveTime g \<noteq> 0"
  shows "\<exists>call. go move_from_string RootPosition uip = Some (Inr call)
               \<and> think_infinite call \<and> think_maxTime call = moveTime g"
  using assms by (simp add: go_def Let_def)

lemmas stream_defs =
  extract_string_def sentry_def istringstream_ctor_def isspace_def extract_int_def
  read_integer_def isdigit_def nat_of_digits_def INT_MAX_def INT_MIN_def

lemma example_go_loop:
  "go_loop (\<lambda>token. 0) (snd (extract_string (istringstream_ctor ''go movetime 200'') [])) []
      go_initial
     = Some (Inr (go_initial\<lparr>moveTime := 200\<rparr>))"
  by (simp add: go_loop.simps go_body_def stream_defs go_initial_def Let_def)

text \<open>
  The command \<^verbatim>\<open>go movetime 200\<close>, after \<^verbatim>\<open>handle_command\<close> has read its first token:
  the loop leaves the flag false, and \<^verbatim>\<open>think\<close> is called with the flag true.
\<close>

lemma go_movetime_200_thinks:
  "\<not> infinite (go_initial\<lparr>moveTime := 200\<rparr>)
   \<and> (\<exists>call. go (\<lambda>pos token. 0) example_position
                (snd (extract_string (istringstream_ctor ''go movetime 200'') []))
              = Some (Inr call)
            \<and> think_infinite call \<and> think_maxTime call = 200)"
proof -
  have nz: "moveTime (go_initial\<lparr>moveTime := 200\<rparr>) \<noteq> 0" by simp
  from go_loop_end_movetime_infinite
         [of "\<lambda>pos token. 0" example_position, OF example_go_loop nz]
  show ?thesis by (simp add: go_initial_def)
qed

text \<open>
  Once an extraction has failed before the end of the input, \<^verbatim>\<open>failbit\<close> is set and
  \<^verbatim>\<open>eofbit\<close> is not. Every later extraction then fails at once and leaves the token, so
  a pass of the loop ends in the same kind of state (the token \<^verbatim>\<open>searchmoves\<close> apart,
  whose inner loop runs over the array), and the loop, which tests \<^verbatim>\<open>eof()\<close> only,
  never ends.
\<close>

lemma go_body_after_failure:
  assumes "failbit uip" and "\<not> eofbit uip" and "token \<noteq> ''searchmoves''"
  shows "\<exists>uip' g'. go_body mfs uip token g = Some (Inr (uip', token, g'))
                   \<and> failbit uip' \<and> \<not> eofbit uip'"
  using assms
  by (simp add: go_body_def extract_string_def sentry_def extract_int_def Let_def)

lemma go_loop_not_after_failure:
  assumes "go_loop mfs uip token g = Some y"
  shows "\<not> (failbit uip \<and> \<not> eofbit uip \<and> token \<noteq> ''searchmoves'')"
proof (rule go_loop.raw_induct
         [where P = "\<lambda>mfs uip token g y.
                       \<not> (failbit uip \<and> \<not> eofbit uip \<and> token \<noteq> ''searchmoves'')",
          OF _ assms])
  fix loop :: "(string \<Rightarrow> Move) \<Rightarrow> istringstream \<Rightarrow> string \<Rightarrow> go_locals
                 \<Rightarrow> (go_error + go_locals) option"
    and mfs uip token g y
  assume IH: "\<And>mfs uip token g y. loop mfs uip token g = Some y \<Longrightarrow>
                \<not> (failbit uip \<and> \<not> eofbit uip \<and> token \<noteq> ''searchmoves'')"
    and body: "(if eofbit uip then Some (Inr g)
                else Option.bind (go_body mfs uip token g)
                       (\<lambda>res. if isl res then Some (Inl (projl res))
                              else loop mfs (fst (projr res)) (fst (snd (projr res)))
                                     (snd (snd (projr res))))) = Some y"
  show "\<not> (failbit uip \<and> \<not> eofbit uip \<and> token \<noteq> ''searchmoves'')"
  proof
    assume stuck: "failbit uip \<and> \<not> eofbit uip \<and> token \<noteq> ''searchmoves''"
    then obtain uip' g' where b: "go_body mfs uip token g = Some (Inr (uip', token, g'))"
      and f: "failbit uip'" "\<not> eofbit uip'"
      using go_body_after_failure [of uip token mfs g] by blast
    from body stuck b have "loop mfs uip' token g' = Some y" by simp
    from IH [OF this] f stuck show False by simp
  qed
qed

lemma go_loop_after_failure:
  assumes "failbit uip" and "\<not> eofbit uip" and "token \<noteq> ''searchmoves''"
  shows "go_loop mfs uip token g = None"
proof (cases "go_loop mfs uip token g")
  case None
  then show ?thesis .
next
  case (Some y)
  from go_loop_not_after_failure [OF this] assms show ?thesis by simp
qed

lemma malformed_first_pass:
  "go_body mfs (snd (extract_string (istringstream_ctor ''go movetime 200 depth abc'') [])) []
       go_initial
     = Some (Inr (\<lparr>buf = '' depth abc'', eofbit = False, failbit = False\<rparr>, ''movetime'',
                  go_initial\<lparr>moveTime := 200\<rparr>))"
  by (simp add: go_body_def stream_defs go_initial_def Let_def)

lemma malformed_second_pass:
  "go_body mfs \<lparr>buf = '' depth abc'', eofbit = False, failbit = False\<rparr> ''movetime''
       (go_initial\<lparr>moveTime := 200\<rparr>)
     = Some (Inr (\<lparr>buf = ''abc'', eofbit = False, failbit = True\<rparr>, ''depth'',
                  go_initial\<lparr>moveTime := 200\<rparr>))"
  by (simp add: go_body_def stream_defs go_initial_def Let_def)

lemma malformed_go_loop:
  "go_loop mfs (snd (extract_string (istringstream_ctor ''go movetime 200 depth abc'') [])) []
      go_initial = None"
proof -
  have s0: "\<not> eofbit (snd (extract_string
                             (istringstream_ctor ''go movetime 200 depth abc'') []))"
    by (simp add: stream_defs)
  have "go_loop mfs (snd (extract_string (istringstream_ctor ''go movetime 200 depth abc'') []))
           [] go_initial
      = go_loop mfs \<lparr>buf = '' depth abc'', eofbit = False, failbit = False\<rparr> ''movetime''
          (go_initial\<lparr>moveTime := 200\<rparr>)"
    by (subst go_loop.simps) (simp add: s0 malformed_first_pass)
  also have "\<dots> = go_loop mfs \<lparr>buf = ''abc'', eofbit = False, failbit = True\<rparr> ''depth''
          (go_initial\<lparr>moveTime := 200\<rparr>)"
    by (subst go_loop.simps) (simp add: malformed_second_pass)
  also have "\<dots> = None"
    by (rule go_loop_after_failure) simp_all
  finally show ?thesis .
qed

text \<open>
  Claim C7: a \<^verbatim>\<open>go\<close> command whose parsed movetime is nonzero makes \<^verbatim>\<open>go\<close> call
  \<^verbatim>\<open>think\<close> with the infinite flag true. On the command \<^verbatim>\<open>go movetime 200 depth abc\<close>
  the code does not get there. After \<^verbatim>\<open>handle_command\<close> has read the first token, the
  first pass of the loop reads \<^verbatim>\<open>movetime\<close> and parses 200; the second reads
  \<^verbatim>\<open>depth\<close>, and \<^verbatim>\<open>uip >> depth\<close> fails on \<^verbatim>\<open>abc\<close>, which sets \<^verbatim>\<open>failbit\<close> and not
  \<^verbatim>\<open>eofbit\<close>, with the movetime still 200. From there the loop never ends: \<^verbatim>\<open>go\<close> has
  no result, and neither the line that sets the flag nor the call of \<^verbatim>\<open>think\<close> is
  reached.
\<close>

theorem go_movetime_malformed_never_thinks:
  "go_body (\<lambda>token. 0)
       (snd (extract_string (istringstream_ctor ''go movetime 200 depth abc'') [])) [] go_initial
     = Some (Inr (\<lparr>buf = '' depth abc'', eofbit = False, failbit = False\<rparr>, ''movetime'',
                  go_initial\<lparr>moveTime := 200\<rparr>))
   \<and> go_body (\<lambda>token. 0) \<lparr>buf = '' depth abc'', eofbit = False, failbit = False\<rparr> ''movetime''
       (go_initial\<lparr>moveTime := 200\<rparr>)
     = Some (Inr (\<lparr>buf = ''abc'', eofbit = False, failbit = True\<rparr>, ''depth'',
                  go_initial\<lparr>moveTime := 200\<rparr>))
   \<and> moveTime (go_initial\<lparr>moveTime := 200\<rparr>) = 200
   \<and> go (\<lambda>pos token. 0) example_position
        (snd (extract_string (istringstream_ctor ''go movetime 200 depth abc'') [])) = None"
  by (simp add: malformed_first_pass malformed_second_pass go_def malformed_go_loop)

end
